theory Spec2Isabelle
  imports Complex_Main "HOL-Library.Multiset"
begin

section \<open>Values and report snapshots\<close>

text \<open>
  The profiler's front end (\<^verbatim>\<open>corepy/profiler/core.py\<close>) works on the document that
  \<^verbatim>\<open>json.loads(_get_profile_report(context))\<close> returns. Timings are Python floats; they
  are modelled as exact rationals, so rounding is outside the model.
  Dictionaries that the front end builds itself are association lists in insertion order.
\<close>

datatype pyval =
    PyStr string
  | PyInt int
  | PyFloat rat
  | PyList "pyval list"

type_synonym pydict = "(string \<times> pyval) list"

text \<open>
  One entry of the \<^verbatim>\<open>operations\<close> map of a report: the keys the front end reads
  (\<^verbatim>\<open>operation\<close>, \<^verbatim>\<open>count\<close>, \<^verbatim>\<open>total_time_ms\<close>, \<^verbatim>\<open>avg_time_ms\<close>,
  \<^verbatim>\<open>min_time_ms\<close>, \<^verbatim>\<open>max_time_ms\<close>, \<^verbatim>\<open>primary_backend\<close>, \<^verbatim>\<open>percent_total\<close>).
\<close>

record op_entry =
  operation :: string
  count :: nat
  total_time_ms :: rat
  avg_time_ms :: rat
  min_time_ms :: rat
  max_time_ms :: rat
  primary_backend :: string
  percent_total :: rat

text \<open>
  A report: \<^verbatim>\<open>{metadata: {session_id}, operations: map(name -> entry), total_time_ms}\<close>.
  The operations map keeps the order of the document, as a Python dict does.
\<close>

record report =
  session_id :: string
  operations :: "(string \<times> op_entry) list"
  report_total_ms :: rat

text \<open>Python's \<^verbatim>\<open>f"{x:.Nf}"\<close> is taken as a parameter: precision, then value.\<close>

type_synonym float_format = "nat \<Rightarrow> rat \<Rightarrow> string"

section \<open>Analyzer (core.py, lines 218-274)\<close>

text \<open>\<^verbatim>\<open>detect_bottlenecks\<close>: the dictionary appended for one operation.\<close>

definition bottleneck_entry :: "float_format \<Rightarrow> op_entry \<Rightarrow> rat \<Rightarrow> pydict" where
  "bottleneck_entry fmt op percent =
     [(''operation'', PyStr (operation op)),
      (''percent_total'', PyFloat (percent_total op)),
      (''time_ms'', PyFloat (total_time_ms op)),
      (''severity'', PyStr (if percent > 1/2 then ''CRITICAL'' else ''HIGH'')),
      (''reason'', PyStr (''Takes '' @ fmt 1 (percent * 100) @ ''% of execution time'')),
      (''suggestion'', PyStr ''Check input size or switch backend'')]"

text \<open>The loop over \<^verbatim>\<open>report.get('operations', {}).values()\<close>.\<close>

fun bottlenecks_loop :: "float_format \<Rightarrow> rat \<Rightarrow> op_entry list \<Rightarrow> pydict list" where
  "bottlenecks_loop fmt threshold [] = []"
| "bottlenecks_loop fmt threshold (op # ops) =
     (let percent = percent_total op / 100
      in (if percent > threshold then [bottleneck_entry fmt op percent] else [])
         @ bottlenecks_loop fmt threshold ops)"

definition detect_bottlenecks :: "float_format \<Rightarrow> report \<Rightarrow> rat \<Rightarrow> pydict list" where
  "detect_bottlenecks fmt rep threshold =
     bottlenecks_loop fmt threshold (map snd (operations rep))"

text \<open>\<^verbatim>\<open>get_recommendations\<close>: one rule, on the key of the operations map.\<close>

definition recommendation :: "float_format \<Rightarrow> op_entry \<Rightarrow> pydict" where
  "recommendation fmt op_data =
     [(''priority'', PyStr ''HIGH''),
      (''title'', PyStr ''Enable GPU for Matrix Multiplication''),
      (''description'', PyStr (''Matmul is taking '' @ fmt 1 (avg_time_ms op_data) @ ''ms on CPU.'')),
      (''estimated_speedup'', PyStr ''10x-50x''),
      (''code_example'', PyStr (''x.to('' @ [CHR 0x27] @ ''cuda'' @ [CHR 0x27] @ '')''))]"

fun recommendations_loop :: "float_format \<Rightarrow> (string \<times> op_entry) list \<Rightarrow> pydict list" where
  "recommendations_loop fmt [] = []"
| "recommendations_loop fmt ((op_name, op_data) # items) =
     (if op_name = ''matmul'' \<and> primary_backend op_data = ''CPU'' \<and> avg_time_ms op_data > 10
      then [recommendation fmt op_data] else [])
     @ recommendations_loop fmt items"

definition get_recommendations :: "float_format \<Rightarrow> report \<Rightarrow> pydict list" where
  "get_recommendations fmt rep = recommendations_loop fmt (operations rep)"

text \<open>
  \<^verbatim>\<open>detect_regressions\<close>: \<^verbatim>\<open>op_name in baseline.get('operations', {})\<close> and
  \<^verbatim>\<open>baseline['operations'][op_name]\<close> are one lookup in the baseline's map.
\<close>

definition regression_entry :: "string \<Rightarrow> rat \<Rightarrow> rat \<Rightarrow> pydict" where
  "regression_entry op_name base_time curr_time =
     [(''operation'', PyStr op_name),
      (''baseline_ms'', PyFloat base_time),
      (''actual_ms'', PyFloat curr_time),
      (''slowdown_factor'', PyFloat (curr_time / base_time)),
      (''causes'', PyList [PyStr ''Increased data size'', PyStr ''Change in algorithm''])]"

fun regressions_loop ::
  "(string \<times> op_entry) list \<Rightarrow> rat \<Rightarrow> (string \<times> op_entry) list \<Rightarrow> pydict list" where
  "regressions_loop base_ops threshold [] = []"
| "regressions_loop base_ops threshold ((op_name, curr_op) # items) =
     (case map_of base_ops op_name of
        None \<Rightarrow> []
      | Some base_op \<Rightarrow>
          (let base_time = avg_time_ms base_op; curr_time = avg_time_ms curr_op
           in if base_time > 0 \<and> curr_time / base_time > threshold
              then [regression_entry op_name base_time curr_time] else []))
     @ regressions_loop base_ops threshold items"

definition detect_regressions :: "report \<Rightarrow> report \<Rightarrow> rat \<Rightarrow> pydict list" where
  "detect_regressions current baseline threshold =
     regressions_loop (operations baseline) threshold (operations current)"

section \<open>The profiler state held by the native extension\<close>

text \<open>
  \<^verbatim>\<open>core.py\<close> binds \<^verbatim>\<open>_enable_profiling\<close>, \<^verbatim>\<open>_disable_profiling\<close>,
  \<^verbatim>\<open>_clear_profile\<close>, \<^verbatim>\<open>_get_profile_report\<close> and \<^verbatim>\<open>_set_profile_context\<close> from the
  extension module \<^verbatim>\<open>_corepy_rust\<close>, whose code is not among the Python sources. The
  state behind them and the recording of a dispatched operation are modelled from the
  specification, sections 3 and 4.2.
\<close>

text \<open>
  Modelled from the spec: the aggregate record of one operation name (the extension's
  table entry is missing). \<^verbatim>\<open>{count, total_time, min_time, max_time, primary_backend}\<close>;
  the primary backend is the most frequently observed one, so the record keeps the
  observations per backend in first-seen order, and it keeps the context labels it was
  tagged with. Durations are in milliseconds; the counter is unbounded here.
\<close>

record OperationRecord =
  rec_count :: nat
  rec_total_time :: rat
  rec_min_time :: rat
  rec_max_time :: rat
  rec_backends :: "(string \<times> nat) list"
  rec_contexts :: "string list"

text \<open>
  Modelled from the spec: the profiler (the extension's global state is missing): the
  enabled flag, the aggregate table keyed by operation name, and the active context
  labels with the current one at the head.
\<close>

record profiler =
  enabled :: bool
  table :: "(string \<times> OperationRecord) list"
  context_stack :: "string list"
  session :: string

text \<open>Modelled from the spec: the initial state (missing) is Disabled, with an empty table.\<close>

definition init_profiler :: "string \<Rightarrow> profiler" where
  "init_profiler sid = \<lparr>enabled = False, table = [], context_stack = [], session = sid\<rparr>"

text \<open>Modelled from the spec: the extension's \<^verbatim>\<open>enable_profiling\<close> (missing), idempotent.\<close>

definition rust_enable_profiling :: "profiler \<Rightarrow> profiler" where
  "rust_enable_profiling p = p\<lparr>enabled := True\<rparr>"

text \<open>Modelled from the spec: the extension's \<^verbatim>\<open>disable_profiling\<close> (missing), idempotent.\<close>

definition rust_disable_profiling :: "profiler \<Rightarrow> profiler" where
  "rust_disable_profiling p = p\<lparr>enabled := False\<rparr>"

text \<open>
  Modelled from the spec: the extension's \<^verbatim>\<open>clear_profile\<close> (missing) empties the
  aggregate table only and leaves the flag as it is.
\<close>

definition rust_clear_profile :: "profiler \<Rightarrow> profiler" where
  "rust_clear_profile p = p\<lparr>table := []\<rparr>"

text \<open>
  The extension's \<^verbatim>\<open>_set_profile_context\<close> is not among the sources. It is a parameter
  of the front end: from the optional label it is called with and the active labels to
  the new active labels.
\<close>

type_synonym set_context = "string option \<Rightarrow> string list \<Rightarrow> string list"

text \<open>
  Modelled from the spec: a context stack (the extension's \<^verbatim>\<open>set_profile_context\<close> is
  missing). Scope entry pushes a label, scope exit pops one; a pop on an empty stack has
  no effect.
\<close>

definition push_pop_context :: set_context where
  "push_pop_context ctx stack = (case ctx of Some label \<Rightarrow> label # stack | None \<Rightarrow> tl stack)"

text \<open>Modelled from the spec: the current top of the context stack (missing).\<close>

definition current_context :: "profiler \<Rightarrow> string option" where
  "current_context p = (case context_stack p of [] \<Rightarrow> None | label # _ \<Rightarrow> Some label)"

text \<open>Modelled from the spec: one more observation of a backend (missing), first-seen order kept.\<close>

fun bump_backend :: "string \<Rightarrow> (string \<times> nat) list \<Rightarrow> (string \<times> nat) list" where
  "bump_backend b [] = [(b, 1)]"
| "bump_backend b ((k, n) # rest) =
     (if k = b then (k, Suc n) # rest else (k, n) # bump_backend b rest)"

text \<open>
  Modelled from the spec: the most frequently observed backend (missing); the first seen
  wins on ties, and a record without observations reports \<^verbatim>\<open>unknown\<close>.
\<close>

fun most_frequent :: "string \<times> nat \<Rightarrow> (string \<times> nat) list \<Rightarrow> string" where
  "most_frequent (b, n) [] = b"
| "most_frequent (b, n) ((k, m) # rest) =
     (if m > n then most_frequent (k, m) rest else most_frequent (b, n) rest)"

definition primary_of :: "(string \<times> nat) list \<Rightarrow> string" where
  "primary_of obs = (case obs of [] \<Rightarrow> ''unknown'' | x # rest \<Rightarrow> most_frequent x rest)"

text \<open>Modelled from the spec: tagging a record with the current top of the stack (missing).\<close>

definition tag_with :: "string option \<Rightarrow> string list \<Rightarrow> string list" where
  "tag_with ctx tags =
     (case ctx of None \<Rightarrow> tags
      | Some label \<Rightarrow> if label \<in> set tags then tags else tags @ [label])"

text \<open>Modelled from the spec: the record created for a name seen for the first time (missing).\<close>

definition new_record :: "rat \<Rightarrow> string \<Rightarrow> string option \<Rightarrow> OperationRecord" where
  "new_record duration backend ctx =
     \<lparr>rec_count = 1, rec_total_time = duration, rec_min_time = duration,
      rec_max_time = duration, rec_backends = [(backend, 1)],
      rec_contexts = tag_with ctx []\<rparr>"

text \<open>
  Modelled from the spec: the update of an existing record (missing): increment the count,
  accumulate the total, update minimum, maximum and the backend observations, tag.
\<close>

definition update_record ::
  "rat \<Rightarrow> string \<Rightarrow> string option \<Rightarrow> OperationRecord \<Rightarrow> OperationRecord" where
  "update_record duration backend ctx r =
     \<lparr>rec_count = Suc (rec_count r),
      rec_total_time = rec_total_time r + duration,
      rec_min_time = min (rec_min_time r) duration,
      rec_max_time = max (rec_max_time r) duration,
      rec_backends = bump_backend backend (rec_backends r),
      rec_contexts = tag_with ctx (rec_contexts r)\<rparr>"

text \<open>Modelled from the spec: look up or create the record of a name (missing).\<close>

fun upsert_record ::
  "string \<Rightarrow> rat \<Rightarrow> string \<Rightarrow> string option \<Rightarrow> (string \<times> OperationRecord) list
   \<Rightarrow> (string \<times> OperationRecord) list" where
  "upsert_record name duration backend ctx [] = [(name, new_record duration backend ctx)]"
| "upsert_record name duration backend ctx ((k, r) # rest) =
     (if k = name then (k, update_record duration backend ctx r) # rest
      else (k, r) # upsert_record name duration backend ctx rest)"

text \<open>
  Modelled from the spec: \<^verbatim>\<open>record(op_name, duration, backend)\<close> of the extension
  (missing). Disabled: it returns at once. Enabled: it updates the record of the name.
\<close>

definition rust_record :: "string \<Rightarrow> rat \<Rightarrow> string \<Rightarrow> profiler \<Rightarrow> profiler" where
  "rust_record op_name duration backend p =
     (if \<not> enabled p then p
      else p\<lparr>table := upsert_record op_name duration backend (current_context p) (table p)\<rparr>)"

text \<open>Modelled from the spec: the grand total (missing), the sum of the totals of all records.\<close>

definition grand_total :: "(string \<times> OperationRecord) list \<Rightarrow> rat" where
  "grand_total tbl = sum_list (map (\<lambda>(name, r). rec_total_time r) tbl)"

text \<open>
  Modelled from the spec: one entry of a report (the extension's \<^verbatim>\<open>get_profile_report\<close> is
  missing). Section 4.2 gives the share of a record as its total over the grand total;
  section 8 requires the \<^verbatim>\<open>percent_total\<close> fields to add up to 100.0, and the front
  end divides the field by 100.0 to get the share (\<^verbatim>\<open>detect_bottlenecks\<close>), prints it
  in the \<^verbatim>\<open>%\<close> column and its test expects a value above 5.0: the field is the share
  on the scale from 0 to 100.
\<close>

definition report_entry :: "rat \<Rightarrow> string \<Rightarrow> OperationRecord \<Rightarrow> op_entry" where
  "report_entry grand name r =
     \<lparr>operation = name,
      count = rec_count r,
      total_time_ms = rec_total_time r,
      avg_time_ms = (if rec_count r = 0 then 0 else rec_total_time r / of_nat (rec_count r)),
      min_time_ms = rec_min_time r,
      max_time_ms = rec_max_time r,
      primary_backend = primary_of (rec_backends r),
      percent_total = (if grand > 0 then rec_total_time r / grand * 100 else 0)\<rparr>"

text \<open>Modelled from the spec: whether a record is in the snapshot for a context filter (missing).\<close>

definition in_context :: "string option \<Rightarrow> OperationRecord \<Rightarrow> bool" where
  "in_context ctx r = (case ctx of None \<Rightarrow> True | Some label \<Rightarrow> label \<in> set (rec_contexts r))"

text \<open>
  Modelled from the spec: \<^verbatim>\<open>get_report(context_filter?)\<close> (missing), a snapshot of the
  aggregate table, restricted by the filter; shares are relative to all records.
\<close>

definition rust_get_profile_report :: "profiler \<Rightarrow> string option \<Rightarrow> report" where
  "rust_get_profile_report p ctx =
     \<lparr>session_id = session p,
      operations =
        map (\<lambda>(name, r). (name, report_entry (grand_total (table p)) name r))
            (filter (\<lambda>(name, r). in_context ctx r) (table p)),
      report_total_ms = grand_total (table p)\<rparr>"

section \<open>The front end of the profiler (core.py, lines 41-215)\<close>

text \<open>\<^verbatim>\<open>enable_profiling\<close>, \<^verbatim>\<open>disable_profiling\<close>, \<^verbatim>\<open>clear_profile\<close> call the extension.\<close>

definition enable_profiling :: "profiler \<Rightarrow> profiler" where
  "enable_profiling p = rust_enable_profiling p"

definition disable_profiling :: "profiler \<Rightarrow> profiler" where
  "disable_profiling p = rust_disable_profiling p"

definition clear_profile :: "profiler \<Rightarrow> profiler" where
  "clear_profile p = rust_clear_profile p"

text \<open>
  \<^verbatim>\<open>ProfileContext\<close>: \<^verbatim>\<open>__enter__\<close> passes the name to \<^verbatim>\<open>_set_profile_context\<close>,
  \<^verbatim>\<open>__exit__\<close> passes \<^verbatim>\<open>None\<close> and returns nothing, so an exception of the body
  travels on. The attribute \<^verbatim>\<open>prev_context\<close> is set to \<^verbatim>\<open>None\<close> by \<^verbatim>\<open>__init__\<close> and
  never read or written again; it has no part in the model.
\<close>

definition ProfileContext_enter :: "set_context \<Rightarrow> string \<Rightarrow> profiler \<Rightarrow> profiler" where
  "ProfileContext_enter setc name p = p\<lparr>context_stack := setc (Some name) (context_stack p)\<rparr>"

definition ProfileContext_exit :: "set_context \<Rightarrow> profiler \<Rightarrow> profiler" where
  "ProfileContext_exit setc p = p\<lparr>context_stack := setc None (context_stack p)\<rparr>"

text \<open>
  Profiled code: a dispatched operation (name, duration, backend) reaches the extension's
  \<^verbatim>\<open>record\<close>; a statement may raise; statements run in sequence; a block runs under
  \<^verbatim>\<open>with ProfileContext(name):\<close>. Python's \<^verbatim>\<open>with\<close> calls \<^verbatim>\<open>__exit__\<close> when the
  body returns and when it raises.
\<close>

datatype outcome = Returned | Raised

datatype block =
    Operation string rat string
  | RaiseStmt
  | Then block block
  | WithContext string block

fun run :: "set_context \<Rightarrow> block \<Rightarrow> profiler \<Rightarrow> outcome \<times> profiler" where
  "run setc (Operation op_name duration backend) p =
     (Returned, rust_record op_name duration backend p)"
| "run setc RaiseStmt p = (Raised, p)"
| "run setc (Then a b) p =
     (case run setc a p of
        (Returned, p1) \<Rightarrow> run setc b p1
      | (Raised, p1) \<Rightarrow> (Raised, p1))"
| "run setc (WithContext name body) p =
     (case run setc body (ProfileContext_enter setc name p) of
        (res, p1) \<Rightarrow> (res, ProfileContext_exit setc p1))"

text \<open>\<^verbatim>\<open>profile_operation\<close>: the wrapper runs the function under a context of its name.\<close>

definition profile_operation :: "string \<Rightarrow> block \<Rightarrow> block" where
  "profile_operation func_name body = WithContext func_name body"

text \<open>A sequence of dispatched operations, each given by name, duration and backend.\<close>

definition run_operations :: "(string \<times> rat \<times> string) list \<Rightarrow> profiler \<Rightarrow> profiler" where
  "run_operations ops p = fold (\<lambda>(op_name, duration, backend). rust_record op_name duration backend) ops p"

subsection \<open>Text rendering\<close>

definition digit_char :: "nat \<Rightarrow> char" where
  "digit_char d = char_of (48 + d)"

fun str_nat :: "nat \<Rightarrow> string" where
  "str_nat n = (if n < 10 then [digit_char n] else str_nat (n div 10) @ [digit_char (n mod 10)])"

declare str_nat.simps [simp del]

text \<open>\<^verbatim>\<open>{s:<w}\<close>: pad on the right with spaces up to the width, never cut.\<close>

definition ljust :: "nat \<Rightarrow> string \<Rightarrow> string" where
  "ljust w s = s @ replicate (w - length s) CHR '' ''"

fun join_lines :: "string list \<Rightarrow> string" where
  "join_lines [] = []"
| "join_lines [l] = l"
| "join_lines (l # ls) = l @ [CHR 0x0A] @ join_lines ls"

definition banner :: string where
  "banner = replicate 80 CHR ''=''"

definition table_header :: string where
  "table_header = ljust 20 ''Operation'' @ '' '' @ ljust 8 ''Count'' @ '' '' @
     ljust 10 ''Total(ms)'' @ '' '' @ ljust 10 ''Avg(ms)'' @ '' '' @ ljust 6 ''%'' @ '' '' @
     ''Backend''"

definition report_line :: "float_format \<Rightarrow> op_entry \<Rightarrow> string" where
  "report_line fmt op =
     ljust 20 (operation op) @ '' '' @ ljust 8 (str_nat (count op)) @ '' '' @
     ljust 10 (fmt 2 (total_time_ms op)) @ '' '' @ ljust 10 (fmt 3 (avg_time_ms op)) @ '' '' @
     ljust 6 (fmt 1 (percent_total op)) @ '' '' @ primary_backend op"

text \<open>
  \<^verbatim>\<open>ops.sort(key=..., reverse=True)\<close>: descending in the total time, entries with equal
  totals in their original order.
\<close>

definition sort_by_total_desc :: "op_entry list \<Rightarrow> op_entry list" where
  "sort_by_total_desc ops = sort_key (\<lambda>op. - total_time_ms op) ops"

text \<open>\<^verbatim>\<open>if context:\<close> holds for a string that is not empty.\<close>

definition context_line :: "string option \<Rightarrow> string list" where
  "context_line context =
     (case context of
        None \<Rightarrow> []
      | Some c \<Rightarrow> if c = [] then [] else [''Context: '' @ c])"

definition report_text :: "float_format \<Rightarrow> string option \<Rightarrow> report \<Rightarrow> string" where
  "report_text fmt context data =
     join_lines
       ([banner,
         ''COREPY PROFILE REPORT (Total: '' @ fmt 2 (report_total_ms data) @ ''ms)'']
        @ context_line context
        @ [banner, table_header, replicate 80 CHR ''-'']
        @ map (report_line fmt) (sort_by_total_desc (map snd (operations data)))
        @ [banner])"

subsection \<open>\<^verbatim>\<open>profile_report\<close>\<close>

datatype report_out = AsDict report | AsJson string | AsText string

text \<open>
  The extension returns the snapshot as JSON text and \<^verbatim>\<open>json.loads\<close> reads it back; the
  text of a snapshot is the parameter \<open>to_json\<close>.
\<close>

definition profile_report ::
  "float_format \<Rightarrow> (report \<Rightarrow> string) \<Rightarrow> profiler \<Rightarrow> string option \<Rightarrow> string \<Rightarrow> report_out" where
  "profile_report fmt to_json p context format =
     (let data = rust_get_profile_report p context;
          json_str = to_json data
      in if format = ''dict'' then AsDict data
         else if format = ''json'' then AsJson json_str
         else AsText (report_text fmt context data))"

subsection \<open>\<^verbatim>\<open>export_profile\<close>\<close>

text \<open>
  Files: a JSON text, or the rows a \<^verbatim>\<open>csv.DictWriter\<close> was given, cell by cell.
  \<^verbatim>\<open>open(filename, 'w')\<close> may fail; which paths can be opened is the parameter
  \<open>can_open\<close>. \<^verbatim>\<open>json.dump\<close> with its indent is the parameter \<open>json_dump\<close>.
\<close>

datatype file_content = JsonText string | CsvTable "pyval list list"

type_synonym files = "string \<rightharpoonup> file_content"

datatype io_error = IOError

definition csv_keys :: "string list" where
  "csv_keys = [''operation'', ''count'', ''total_time_ms'', ''avg_time_ms'', ''min_time_ms'',
               ''max_time_ms'', ''primary_backend'', ''percent_total'']"

text \<open>An entry of the operations map as the dictionary it is.\<close>

definition op_dict :: "op_entry \<Rightarrow> pydict" where
  "op_dict op =
     [(''operation'', PyStr (operation op)),
      (''count'', PyInt (int (count op))),
      (''total_time_ms'', PyFloat (total_time_ms op)),
      (''avg_time_ms'', PyFloat (avg_time_ms op)),
      (''min_time_ms'', PyFloat (min_time_ms op)),
      (''max_time_ms'', PyFloat (max_time_ms op)),
      (''primary_backend'', PyStr (primary_backend op)),
      (''percent_total'', PyFloat (percent_total op))]"

text \<open>\<^verbatim>\<open>row = {k: op.get(k, 0) for k in keys}\<close>, written in the order of the field names.\<close>

definition csv_row :: "op_entry \<Rightarrow> pyval list" where
  "csv_row op = map (\<lambda>k. case map_of (op_dict op) k of Some v \<Rightarrow> v | None \<Rightarrow> PyInt 0) csv_keys"

text \<open>
  \<^verbatim>\<open>_convert_to_speedscope\<close> walks the operations, collecting events it does not use,
  and returns the report itself.
\<close>

definition convert_to_speedscope :: "report \<Rightarrow> report" where
  "convert_to_speedscope rep = rep"

definition export_profile ::
  "(nat option \<Rightarrow> report \<Rightarrow> string) \<Rightarrow> (string \<Rightarrow> bool) \<Rightarrow> profiler \<Rightarrow> files
   \<Rightarrow> string \<Rightarrow> string \<Rightarrow> string option \<Rightarrow> io_error + files" where
  "export_profile json_dump can_open p fs filename format context =
     (let rep = rust_get_profile_report p context
      in if format = ''json'' then
           (if can_open filename
            then Inr (fs(filename \<mapsto> JsonText (json_dump (Some 2) rep)))
            else Inl IOError)
         else if format = ''csv'' then
           (let ops = map snd (operations rep)
            in if ops = [] then Inr fs
               else if can_open filename
               then Inr (fs(filename \<mapsto> CsvTable (map PyStr csv_keys # map csv_row ops)))
               else Inl IOError)
         else if format = ''flamegraph'' then
           (if can_open filename
            then Inr (fs(filename \<mapsto> JsonText (json_dump None (convert_to_speedscope rep))))
            else Inl IOError)
         else Inr fs)"

section \<open>Tensors (tensor.py)\<close>

text \<open>
  Modelled from the spec: \<^verbatim>\<open>BackendType\<close>, the enum of execution targets
  (\<^verbatim>\<open>backend/types.py\<close> is missing); \<^verbatim>\<open>tensor.py\<close> names \<^verbatim>\<open>CPU\<close> and \<^verbatim>\<open>GPU\<close>.
\<close>

datatype BackendType = CPU | GPU

datatype DataType = FLOAT32 | FLOAT64 | INT32 | INT64 | BOOL

datatype error = ValueError | TypeError | BackendError | DeviceNotFoundError | KernelError

text \<open>
  The data behind a tensor: a number, a list, a tuple, or an array with its shape and its
  elements in row-major order. Byte buffers are left out: what the kernels read from them
  is a matter of memory layout.
\<close>

datatype tdata =
    Num rat
  | PyL "tdata list"
  | PyT "tdata list"
  | NdArray "nat list" "rat list"

record Tensor =
  dtype :: DataType
  shape :: "nat list"
  element_count :: nat
  backing_data :: tdata
  backend_type :: BackendType
  device :: "string option"

text \<open>
  What \<^verbatim>\<open>tensor.py\<close> imports and calls without defining: whether the extension
  \<^verbatim>\<open>_corepy_rust\<close> can be imported, \<^verbatim>\<open>select_backend\<close> (given the element count, the shape
  and the requested backend; operation kind and devices are fixed), the kernels of the
  extension on the flat buffers, and \<^verbatim>\<open>dispatch_kernel\<close>.
\<close>

record runtime =
  rust_available :: bool
  select_backend :: "nat \<Rightarrow> nat list \<Rightarrow> BackendType option \<Rightarrow> error + BackendType"
  tensor_elementwise_f32 :: "string \<Rightarrow> rat list \<Rightarrow> rat list \<Rightarrow> nat \<Rightarrow> rat list"
  tensor_matmul_f32 :: "rat list \<Rightarrow> rat list \<Rightarrow> nat \<Rightarrow> rat"
  tensor_matmul_2d_f32 :: "rat list \<Rightarrow> rat list \<Rightarrow> nat \<Rightarrow> nat \<Rightarrow> nat \<Rightarrow> rat list"
  dispatch_kernel :: "string \<Rightarrow> BackendType \<Rightarrow> tdata list \<Rightarrow> error + tdata"

text \<open>\<^verbatim>\<open>"cuda" in device\<close>: the first string occurs in the second.\<close>

fun is_prefix :: "string \<Rightarrow> string \<Rightarrow> bool" where
  "is_prefix [] s = True"
| "is_prefix (c # cs) [] = False"
| "is_prefix (c # cs) (d # ds) = (c = d \<and> is_prefix cs ds)"

fun occurs_in :: "string \<Rightarrow> string \<Rightarrow> bool" where
  "occurs_in sub [] = (sub = [])"
| "occurs_in sub (c # cs) = (is_prefix sub (c # cs) \<or> occurs_in sub cs)"

text \<open>The shape loop of \<^verbatim>\<open>__init__\<close>: the lengths along the first elements.\<close>

fun detect_shape :: "tdata \<Rightarrow> nat list" where
  "detect_shape (PyL (x # xs)) = Suc (length xs) # detect_shape x"
| "detect_shape (PyT (x # xs)) = Suc (length xs) # detect_shape x"
| "detect_shape d = []"

text \<open>The backend requested by \<^verbatim>\<open>device\<close>, else by \<^verbatim>\<open>backend\<close> (an enum value here).\<close>

definition requested_backend :: "BackendType option \<Rightarrow> string option \<Rightarrow> BackendType option" where
  "requested_backend backend dev =
     (case dev of
        Some d \<Rightarrow>
          (if d = [] then backend
           else if occurs_in ''cuda'' d \<or> occurs_in ''gpu'' d then Some GPU
           else if occurs_in ''cpu'' d then Some CPU
           else None)
      | None \<Rightarrow> backend)"

text \<open>\<^verbatim>\<open>Tensor(data, dtype, backend, device)\<close>.\<close>

definition Tensor_init ::
  "runtime \<Rightarrow> tdata \<Rightarrow> DataType \<Rightarrow> BackendType option \<Rightarrow> string option \<Rightarrow> error + Tensor" where
  "Tensor_init rt data dt backend dev =
     (let (shp, cnt, backing) =
            (case data of
               PyL xs \<Rightarrow> (detect_shape data, prod_list (detect_shape data), data)
             | PyT xs \<Rightarrow> (detect_shape data, prod_list (detect_shape data), data)
             | NdArray s flat \<Rightarrow> (s, prod_list s, data)
             | Num r \<Rightarrow> ([1], 1, PyL [Num r]))
      in case select_backend rt cnt shp (requested_backend backend dev) of
           Inl e \<Rightarrow> Inl e
         | Inr b \<Rightarrow>
             Inr \<lparr>dtype = dt, shape = shp, element_count = cnt, backing_data = backing,
                  backend_type = b, device = dev\<rparr>)"

text \<open>The generator \<^verbatim>\<open>flatten\<close> of \<^verbatim>\<open>_get_buffer_pointer\<close>.\<close>

fun flatten :: "tdata list \<Rightarrow> tdata list" where
  "flatten [] = []"
| "flatten (PyL ys # rest) = flatten ys @ flatten rest"
| "flatten (PyT ys # rest) = flatten ys @ flatten rest"
| "flatten (x # rest) = x # flatten rest"

text \<open>\<^verbatim>\<open>float(x)\<close> on the items \<^verbatim>\<open>flatten\<close> yields; an array of one element converts.\<close>

fun to_floats :: "tdata list \<Rightarrow> error + rat list" where
  "to_floats [] = Inr []"
| "to_floats (Num r # rest) =
     (case to_floats rest of Inl e \<Rightarrow> Inl e | Inr rs \<Rightarrow> Inr (r # rs))"
| "to_floats (NdArray s [r] # rest) =
     (case to_floats rest of Inl e \<Rightarrow> Inl e | Inr rs \<Rightarrow> Inr (r # rs))"
| "to_floats (x # rest) = Inl TypeError"

text \<open>
  \<^verbatim>\<open>_get_buffer_pointer('f4')\<close>: the buffer a kernel reads and the count handed to it.
  An array gives its elements and its size; a list is flattened and packed, and the count
  is the tensor's element count; anything else has no buffer.
\<close>

definition get_buffer_pointer_f4 :: "Tensor \<Rightarrow> error + (rat list \<times> nat)" where
  "get_buffer_pointer_f4 t =
     (case backing_data t of
        NdArray s flat \<Rightarrow> Inr (flat, prod_list s)
      | PyL xs \<Rightarrow>
          (case to_floats (flatten xs) of
             Inl e \<Rightarrow> Inl e
           | Inr buf \<Rightarrow> Inr (buf, element_count t))
      | PyT xs \<Rightarrow> Inl ValueError
      | Num r \<Rightarrow> Inl ValueError)"

text \<open>The right operand of an operator: a tensor, a number, or something else.\<close>

datatype operand = OTensor Tensor | OScalar rat | OOther

text \<open>\<^verbatim>\<open>_binary_op\<close>, after the scalar was wrapped: both operands are tensors.\<close>

definition binary_op_tensors :: "runtime \<Rightarrow> Tensor \<Rightarrow> string \<Rightarrow> Tensor \<Rightarrow> error + Tensor" where
  "binary_op_tensors rt self op other =
     (if backend_type other \<noteq> backend_type self then Inl BackendError
      else if backend_type self = CPU \<and> rust_available rt then
        (case get_buffer_pointer_f4 self of
           Inl e \<Rightarrow> Inl e
         | Inr (buf_a, count_a) \<Rightarrow>
             (case get_buffer_pointer_f4 other of
                Inl e \<Rightarrow> Inl e
              | Inr (buf_b, count_b) \<Rightarrow>
                  if count_a \<noteq> count_b then Inl ValueError
                  else
                    (let out_floats =
                           (if op \<in> set [''add'', ''sub'', ''mul'', ''div'']
                            then tensor_elementwise_f32 rt op buf_a buf_b count_a
                            else replicate count_a 0)
                     in Tensor_init rt (PyL (map Num out_floats)) (dtype self)
                          (Some (backend_type self)) None)))
      else
        (case dispatch_kernel rt op (backend_type self) [backing_data self, backing_data other] of
           Inl e \<Rightarrow> Inl e
         | Inr result \<Rightarrow> Tensor_init rt result (dtype self) (Some (backend_type self)) None))"

definition binary_op :: "runtime \<Rightarrow> Tensor \<Rightarrow> string \<Rightarrow> operand \<Rightarrow> error + Tensor" where
  "binary_op rt self op other =
     (case other of
        OScalar x \<Rightarrow>
          (case Tensor_init rt (PyL (replicate (element_count self) (Num x))) FLOAT32 None
                  (device self) of
             Inl e \<Rightarrow> Inl e
           | Inr t \<Rightarrow> binary_op_tensors rt self op t)
      | OOther \<Rightarrow> Inl ValueError
      | OTensor t \<Rightarrow> binary_op_tensors rt self op t)"

definition tensor_add :: "runtime \<Rightarrow> Tensor \<Rightarrow> operand \<Rightarrow> error + Tensor" where
  "tensor_add rt self other = binary_op rt self ''add'' other"

definition tensor_sub :: "runtime \<Rightarrow> Tensor \<Rightarrow> operand \<Rightarrow> error + Tensor" where
  "tensor_sub rt self other = binary_op rt self ''sub'' other"

definition tensor_mul :: "runtime \<Rightarrow> Tensor \<Rightarrow> operand \<Rightarrow> error + Tensor" where
  "tensor_mul rt self other = binary_op rt self ''mul'' other"

definition tensor_truediv :: "runtime \<Rightarrow> Tensor \<Rightarrow> operand \<Rightarrow> error + Tensor" where
  "tensor_truediv rt self other = binary_op rt self ''div'' other"

text \<open>The fallback of \<^verbatim>\<open>matmul\<close> through \<^verbatim>\<open>dispatch_kernel\<close>.\<close>

definition matmul_dispatch :: "runtime \<Rightarrow> Tensor \<Rightarrow> Tensor \<Rightarrow> error + Tensor" where
  "matmul_dispatch rt self other =
     (case dispatch_kernel rt ''matmul'' (backend_type self)
             [backing_data self, backing_data other] of
        Inl e \<Rightarrow> Inl e
      | Inr result \<Rightarrow> Tensor_init rt result (dtype self) (Some (backend_type self)) None)"

text \<open>\<^verbatim>\<open>matmul\<close>: the dot product of two vectors, the product of two matrices, else the fallback.\<close>

definition matmul :: "runtime \<Rightarrow> Tensor \<Rightarrow> operand \<Rightarrow> error + Tensor" where
  "matmul rt self other_arg =
     (case other_arg of
        OScalar x \<Rightarrow> Inl ValueError
      | OOther \<Rightarrow> Inl ValueError
      | OTensor other \<Rightarrow>
          if backend_type self = CPU \<and> rust_available rt then
            (if length (shape self) = 1 \<and> length (shape other) = 1 then
               (case get_buffer_pointer_f4 self of
                  Inl e \<Rightarrow> Inl e
                | Inr (buf_a, count_a) \<Rightarrow>
                    (case get_buffer_pointer_f4 other of
                       Inl e \<Rightarrow> Inl e
                     | Inr (buf_b, count_b) \<Rightarrow>
                         if count_a \<noteq> count_b then Inl ValueError
                         else Tensor_init rt (Num (tensor_matmul_f32 rt buf_a buf_b count_a))
                                (dtype self) (Some (backend_type self)) None))
             else if length (shape self) = 2 \<and> length (shape other) = 2 then
               (let m = shape self ! 0; k1 = shape self ! 1;
                    k2 = shape other ! 0; n = shape other ! 1
                in if k1 \<noteq> k2 then Inl ValueError
                   else
                     (case get_buffer_pointer_f4 self of
                        Inl e \<Rightarrow> Inl e
                      | Inr (buf_a, c_a) \<Rightarrow>
                          (case get_buffer_pointer_f4 other of
                             Inl e \<Rightarrow> Inl e
                           | Inr (buf_b, c_b) \<Rightarrow>
                               Tensor_init rt
                                 (NdArray [m, n] (tensor_matmul_2d_f32 rt buf_a buf_b m k1 n))
                                 (dtype self) (Some (backend_type self)) None)))
             else matmul_dispatch rt self other)
          else matmul_dispatch rt self other)"

section \<open>Concrete parameters for evaluation\<close>

text \<open>
  Python's fixed-point format \<^verbatim>\<open>{x:.Nf}\<close> on an exact value: round the scaled magnitude
  to the nearest integer, ties to even, and print sign, integer part and \<open>N\<close> digits.
\<close>

definition round_half_even :: "rat \<Rightarrow> int" where
  "round_half_even y =
     (let f = \<lfloor>y\<rfloor>; d = y - of_int f
      in if d < 1/2 then f else if d > 1/2 then f + 1 else if even f then f else f + 1)"

definition format_fixed :: float_format where
  "format_fixed prec x =
     (let scaled = nat (round_half_even (\<bar>x\<bar> * 10 ^ prec));
          frac = str_nat (scaled mod 10 ^ prec)
      in (if x < 0 then ''-'' else []) @ str_nat (scaled div 10 ^ prec) @
         (if prec = 0 then [] else ''.'' @ replicate (prec - length frac) CHR ''0'' @ frac))"

text \<open>
  A runtime with the extension present: an explicit request is honoured, data without a
  request stays on the CPU, the kernels compute on the rationals, and the registered
  Python stubs of \<^verbatim>\<open>ops/math.py\<close> raise.
\<close>

definition example_runtime :: runtime where
  "example_runtime =
     \<lparr>rust_available = True,
      select_backend = (\<lambda>cnt shp req. case req of Some b \<Rightarrow> Inr b | None \<Rightarrow> Inr CPU),
      tensor_elementwise_f32 = (\<lambda>op a b n.
         map2 (if op = ''add'' then (+) else if op = ''sub'' then (-)
               else if op = ''mul'' then (*) else (/)) (take n a) (take n b)),
      tensor_matmul_f32 = (\<lambda>a b n. sum_list (map2 (*) (take n a) (take n b))),
      tensor_matmul_2d_f32 = (\<lambda>a b m k n.
         concat (map (\<lambda>i. map (\<lambda>j. sum_list (map (\<lambda>l. a ! (i * k + l) * b ! (l * n + j)) [0..<k]))
                               [0..<n]) [0..<m])),
      dispatch_kernel = (\<lambda>op b args. Inl KernelError)\<rparr>"

text \<open>Snapshots for evaluation: a report entry of one call, and a report of given entries.\<close>

definition single_call :: "string \<Rightarrow> rat \<Rightarrow> string \<Rightarrow> rat \<Rightarrow> op_entry" where
  "single_call name ms backend pct =
     \<lparr>operation = name, count = 1, total_time_ms = ms, avg_time_ms = ms, min_time_ms = ms,
      max_time_ms = ms, primary_backend = backend, percent_total = pct\<rparr>"

definition report_of :: "op_entry list \<Rightarrow> report" where
  "report_of entries =
     \<lparr>session_id = ''example'',
      operations = map (\<lambda>e. (operation e, e)) entries,
      report_total_ms = sum_list (map total_time_ms entries)\<rparr>"

text \<open>A profile for evaluation: profiling enabled, then \<^verbatim>\<open>mul\<close> for 6 ms and \<^verbatim>\<open>add\<close> for 2 ms.\<close>

definition example_profile :: profiler where
  "example_profile =
     rust_record ''add'' 2 ''CPU''
       (rust_record ''mul'' 6 ''CPU'' (enable_profiling (init_profiler ''example'')))"

text \<open>
  A second profile: twelve calls of \<^verbatim>\<open>add\<close> of a quarter of a millisecond each on the
  CPU, then one \<^verbatim>\<open>matmul\<close> of 12 ms on the GPU.
\<close>

definition unsorted_profile :: profiler where
  "unsorted_profile =
     run_operations (replicate 12 (''add'', 1/4, ''CPU'') @ [(''matmul'', 12, ''GPU'')])
       (enable_profiling (init_profiler ''example''))"

section \<open>Backend agreement of binary tensor operations\<close>

text \<open>The operators that go through \<^verbatim>\<open>_binary_op\<close> compare the backends first.\<close>

lemma binary_op_mismatch:
  "backend_type other \<noteq> backend_type self \<Longrightarrow>
     binary_op rt self op (OTensor other) = Inl BackendError"
  by (simp add: binary_op_def binary_op_tensors_def)

lemma operators_mismatch:
  assumes "backend_type other \<noteq> backend_type self"
  shows "tensor_add rt self (OTensor other) = Inl BackendError"
    and "tensor_sub rt self (OTensor other) = Inl BackendError"
    and "tensor_mul rt self (OTensor other) = Inl BackendError"
    and "tensor_truediv rt self (OTensor other) = Inl BackendError"
  using assms
  by (simp_all add: tensor_add_def tensor_sub_def tensor_mul_def tensor_truediv_def
        binary_op_mismatch)

text \<open>\<^verbatim>\<open>matmul\<close> never reads the backend of its right operand.\<close>

lemma get_buffer_backend:
  "get_buffer_pointer_f4 (t\<lparr>backend_type := x\<rparr>) = get_buffer_pointer_f4 t"
  by (simp add: get_buffer_pointer_f4_def split: tdata.split sum.split)

lemma matmul_dispatch_backend:
  "matmul_dispatch rt a (b\<lparr>backend_type := x\<rparr>) = matmul_dispatch rt a b"
  by (simp add: matmul_dispatch_def)

lemma matmul_ignores_backend:
  "matmul rt a (OTensor (b\<lparr>backend_type := x\<rparr>)) = matmul rt a (OTensor b)"
  unfolding matmul_def operand.case get_buffer_backend matmul_dispatch_backend
  by simp

text \<open>
  Claim C1: every binary tensor operation (add, sub, mul, div, matmul) on two tensors
  whose backends differ fails with \<^verbatim>\<open>BackendError\<close> and produces no result.
  The four operators do (\<open>operators_mismatch\<close>). \<^verbatim>\<open>matmul\<close> does not: with the
  extension present, the dot product of the CPU vector \<^verbatim>\<open>[1.0, 2.0]\<close> and the GPU
  vector \<^verbatim>\<open>[3.0, 4.0]\<close> returns a CPU tensor holding 11.
\<close>

theorem C1_matmul_mixed_backends_returns:
  "matmul example_runtime
     \<lparr>dtype = FLOAT32, shape = [2], element_count = 2, backing_data = PyL [Num 1, Num 2],
      backend_type = CPU, device = None\<rparr>
     (OTensor \<lparr>dtype = FLOAT32, shape = [2], element_count = 2,
               backing_data = PyL [Num 3, Num 4], backend_type = GPU, device = None\<rparr>)
   = Inr \<lparr>dtype = FLOAT32, shape = [1], element_count = 1, backing_data = PyL [Num 11],
          backend_type = CPU, device = None\<rparr>"
proof -
  have rt: "rust_available example_runtime"
    by (simp add: example_runtime_def)
  have dot: "tensor_matmul_f32 example_runtime [1, 2] [3, 4] 2 = 11"
    by (simp add: example_runtime_def)
  have init: "Tensor_init example_runtime (Num 11) FLOAT32 (Some CPU) None
      = Inr \<lparr>dtype = FLOAT32, shape = [1], element_count = 1, backing_data = PyL [Num 11],
          backend_type = CPU, device = None\<rparr>"
    by (simp add: Tensor_init_def example_runtime_def requested_backend_def)
  show ?thesis
    by (simp add: matmul_def get_buffer_pointer_f4_def rt dot init)
qed

section \<open>Reports of the extension\<close>

lemma report_total_ms_get [simp]:
  "report_total_ms (rust_get_profile_report p ctx) = grand_total (table p)"
  by (simp add: rust_get_profile_report_def)

lemma report_entry_fields [simp]:
  "total_time_ms (report_entry g n r) = rec_total_time r"
  "operation (report_entry g n r) = n"
  "0 < g \<Longrightarrow> percent_total (report_entry g n r) = rec_total_time r / g * 100"
  by (simp_all add: report_entry_def)

lemma in_report_entry:
  assumes "(n, e) \<in> set (operations (rust_get_profile_report p ctx))"
  obtains r where "(n, r) \<in> set (table p)" and "e = report_entry (grand_total (table p)) n r"
  using assms by (auto simp: rust_get_profile_report_def)

lemma report_share:
  assumes "0 < grand_total (table p)"
    and "e \<in> set (map snd (operations (rust_get_profile_report p ctx)))"
  shows "percent_total e / 100 = total_time_ms e / grand_total (table p)"
proof -
  from assms(2) obtain n where "(n, e) \<in> set (operations (rust_get_profile_report p ctx))"
    by auto
  then obtain r where "e = report_entry (grand_total (table p)) n r"
    by (rule in_report_entry)
  with assms(1) show ?thesis by simp
qed

text \<open>The report of the example profile.\<close>

lemma example_report:
  "rust_get_profile_report example_profile None =
     \<lparr>session_id = ''example'',
      operations = [(''mul'', single_call ''mul'' 6 ''CPU'' 75),
                    (''add'', single_call ''add'' 2 ''CPU'' 25)],
      report_total_ms = 8\<rparr>"
  by (simp add: example_profile_def rust_record_def enable_profiling_def rust_enable_profiling_def
        init_profiler_def current_context_def new_record_def tag_with_def
        rust_get_profile_report_def grand_total_def in_context_def report_entry_def
        single_call_def primary_of_def)

text \<open>
  Section 8 of the specification: over an unfiltered report with a grand total above 0 the
  \<^verbatim>\<open>percent_total\<close> fields add up to 100.
\<close>

lemma sum_list_scaled:
  "sum_list (map (\<lambda>x. f x * c) xs) = sum_list (map f xs) * (c :: rat)"
  by (induction xs) (simp_all add: distrib_right)

lemma sum_percent_total:
  assumes "0 < grand_total (table p)"
  shows "sum_list (map (\<lambda>(n, e). percent_total e) (operations (rust_get_profile_report p None)))
           = 100"
proof -
  let ?g = "grand_total (table p)"
  have "map (\<lambda>(n, e). percent_total e) (operations (rust_get_profile_report p None))
      = map (\<lambda>(n, r). rec_total_time r * (100 / ?g)) (table p)"
    using assms by (simp add: rust_get_profile_report_def in_context_def comp_def case_prod_beta)
  also have "sum_list \<dots> = sum_list (map (\<lambda>(n, r). rec_total_time r) (table p)) * (100 / ?g)"
    using sum_list_scaled [of "\<lambda>(n, r). rec_total_time r" "100 / ?g" "table p"]
    by (simp add: case_prod_unfold)
  also have "\<dots> = 100"
    using assms by (simp add: grand_total_def)
  finally show ?thesis .
qed

text \<open>
  The front end reads the field on that scale. Were the \<^verbatim>\<open>percent_total\<close> of an operation
  that takes all of the time 1, \<^verbatim>\<open>detect_bottlenecks\<close> with its default threshold
  of 0.20 would not report it; with 100 it is \<^verbatim>\<open>CRITICAL\<close>.
\<close>

lemma fraction_scale_hides_bottleneck:
  "detect_bottlenecks fmt (report_of [single_call ''sum'' 8 ''CPU'' 1]) (1/5) = []"
  by (simp add: detect_bottlenecks_def report_of_def single_call_def)

lemma percent_scale_finds_bottleneck:
  "map (\<lambda>d. map_of d ''severity'')
     (detect_bottlenecks fmt (report_of [single_call ''sum'' 8 ''CPU'' 100]) (1/5))
   = [Some (PyStr ''CRITICAL'')]"
  by (simp add: detect_bottlenecks_def report_of_def single_call_def bottleneck_entry_def)

text \<open>
  Claim C4, as stated: with a grand total above 0, the \<^verbatim>\<open>percent_total\<close> of a record of a
  report equals its total time over the sum of all total times, a fraction of 1 and not a
  value between 0 and 100. In the example profile \<^verbatim>\<open>mul\<close> took 6 of 8 ms: its share is
  3/4 and its \<^verbatim>\<open>percent_total\<close> is 75.
\<close>

theorem C4_fraction_counterexample:
  "percent_total (snd (hd (operations (rust_get_profile_report example_profile None)))) = 75
   \<and> total_time_ms (snd (hd (operations (rust_get_profile_report example_profile None))))
       / report_total_ms (rust_get_profile_report example_profile None) = 3/4"
  by (simp add: example_report single_call_def)

text \<open>
  Claim C4, amended: with a grand total above 0, the \<^verbatim>\<open>percent_total\<close> of every record of
  a report is 100 times its total time over the grand total, the sum of the total times of
  all records; the share as a fraction of 1 is \<^verbatim>\<open>percent_total / 100\<close>.
\<close>

theorem C4_percent_total_is_percentage:
  assumes "0 < report_total_ms (rust_get_profile_report p ctx)"
    and "(n, e) \<in> set (operations (rust_get_profile_report p ctx))"
  shows "percent_total e = 100 * (total_time_ms e / report_total_ms (rust_get_profile_report p ctx))
       \<and> percent_total e / 100 = total_time_ms e / report_total_ms (rust_get_profile_report p ctx)
       \<and> report_total_ms (rust_get_profile_report p ctx)
           = sum_list (map (\<lambda>(name, r). rec_total_time r) (table p))"
proof -
  from assms(2) obtain r where "e = report_entry (grand_total (table p)) n r"
    by (rule in_report_entry)
  with assms(1) show ?thesis by (simp add: grand_total_def)
qed

theorem C4_percent_total_witness:
  "0 < report_total_ms (rust_get_profile_report example_profile None)
   \<and> (''add'', single_call ''add'' 2 ''CPU'' 25)
        \<in> set (operations (rust_get_profile_report example_profile None))
   \<and> percent_total (single_call ''add'' 2 ''CPU'' 25)
       = 100 * (total_time_ms (single_call ''add'' 2 ''CPU'' 25)
                  / report_total_ms (rust_get_profile_report example_profile None))"
proof -
  have total: "0 < report_total_ms (rust_get_profile_report example_profile None)"
    by (simp only: example_report) simp
  have entry: "(''add'', single_call ''add'' 2 ''CPU'' 25)
      \<in> set (operations (rust_get_profile_report example_profile None))"
    by (simp only: example_report) simp
  from C4_percent_total_is_percentage [OF total entry] total entry
  show ?thesis by blast
qed

section \<open>Bottlenecks, recommendations, regressions\<close>

lemma bottlenecks_loop_filter:
  "bottlenecks_loop fmt thr ops =
     map (\<lambda>op. bottleneck_entry fmt op (percent_total op / 100))
         (filter (\<lambda>op. percent_total op / 100 > thr) ops)"
  by (induction ops) (simp_all add: Let_def)

lemma regressions_loop_filter:
  "regressions_loop base thr items =
     map (\<lambda>(n, c). regression_entry n (avg_time_ms (the (map_of base n))) (avg_time_ms c))
         (filter (\<lambda>(n, c). case map_of base n of None \<Rightarrow> False
                   | Some b \<Rightarrow> avg_time_ms b > 0 \<and> avg_time_ms c / avg_time_ms b > thr) items)"
  by (induction base thr items rule: regressions_loop.induct)
     (simp_all add: Let_def split: option.splits)

lemma recommendations_loop_filter:
  "recommendations_loop fmt items =
     map (\<lambda>(n, d). recommendation fmt d)
         (filter (\<lambda>(n, d). n = ''matmul'' \<and> primary_backend d = ''CPU'' \<and> avg_time_ms d > 10)
                 items)"
  by (induction fmt items rule: recommendations_loop.induct) simp_all

text \<open>In a dictionary a key occurs once: filtering on it leaves at most its one item.\<close>

lemma filter_key_distinct:
  "distinct (map fst xs) \<Longrightarrow> (k, v) \<in> set xs \<Longrightarrow>
     filter (\<lambda>(n, d). n = k \<and> P d) xs = (if P v then [(k, v)] else [])"
proof (induction xs)
  case Nil
  then show ?case by simp
next
  case (Cons x xs)
  obtain n d where x: "x = (n, d)" by (cases x)
  show ?case
  proof (cases "n = k")
    case True
    with Cons.prems x have "d = v" and notin: "k \<notin> fst ` set xs"
      by (auto simp: image_iff)
    from notin have "filter (\<lambda>(n, d). n = k \<and> P d) xs = []"
      by (auto simp: filter_empty_conv image_iff)
    with True x \<open>d = v\<close> show ?thesis by simp
  next
    case False
    with Cons x show ?thesis by auto
  qed
qed

text \<open>
  Claim C5: \<^verbatim>\<open>detect_bottlenecks(threshold)\<close> returns exactly the records whose share of
  the time, total time over grand total, is strictly greater than the threshold, in the
  order of the report, each with severity \<^verbatim>\<open>CRITICAL\<close> when the share exceeds 0.5 and
  \<^verbatim>\<open>HIGH\<close> otherwise; with threshold 0.0 it returns every record whose
  \<^verbatim>\<open>percent_total\<close> is above 0. The code takes the share from \<^verbatim>\<open>percent_total / 100.0\<close>;
  the grand total is above 0.
\<close>

theorem C5_detect_bottlenecks:
  assumes pos: "0 < report_total_ms (rust_get_profile_report p None)"
  shows "detect_bottlenecks fmt (rust_get_profile_report p None) threshold =
           map (\<lambda>e. bottleneck_entry fmt e
                       (total_time_ms e / report_total_ms (rust_get_profile_report p None)))
               (filter (\<lambda>e. total_time_ms e / report_total_ms (rust_get_profile_report p None)
                              > threshold)
                       (map snd (operations (rust_get_profile_report p None))))
       \<and> map (\<lambda>d. (map_of d ''operation'', map_of d ''severity''))
             (detect_bottlenecks fmt (rust_get_profile_report p None) threshold) =
           map (\<lambda>e. (Some (PyStr (operation e)),
                   Some (PyStr (if total_time_ms e / report_total_ms (rust_get_profile_report p None)
                                    > 1/2 then ''CRITICAL'' else ''HIGH''))))
               (filter (\<lambda>e. total_time_ms e / report_total_ms (rust_get_profile_report p None)
                              > threshold)
                       (map snd (operations (rust_get_profile_report p None))))
       \<and> map (\<lambda>d. map_of d ''operation'')
             (detect_bottlenecks fmt (rust_get_profile_report p None) 0) =
           map (\<lambda>e. Some (PyStr (operation e)))
               (filter (\<lambda>e. percent_total e > 0)
                       (map snd (operations (rust_get_profile_report p None))))"
proof -
  let ?rep = "rust_get_profile_report p None"
  let ?g = "grand_total (table p)"
  from pos have g: "0 < ?g" by simp
  have share: "percent_total e / 100 = total_time_ms e / ?g"
    if "e \<in> set (map snd (operations ?rep))" for e
    using g that by (rule report_share)
  have flt: "filter (\<lambda>e. percent_total e / 100 > threshold) (map snd (operations ?rep))
           = filter (\<lambda>e. total_time_ms e / ?g > threshold) (map snd (operations ?rep))"
    by (rule filter_cong) (simp_all add: share)
  have full: "detect_bottlenecks fmt ?rep threshold =
      map (\<lambda>e. bottleneck_entry fmt e (total_time_ms e / ?g))
          (filter (\<lambda>e. total_time_ms e / ?g > threshold) (map snd (operations ?rep)))"
    unfolding detect_bottlenecks_def bottlenecks_loop_filter flt
    by (rule map_cong) (simp_all add: share)
  have zero: "detect_bottlenecks fmt ?rep 0 =
      map (\<lambda>e. bottleneck_entry fmt e (percent_total e / 100))
          (filter (\<lambda>e. percent_total e > 0) (map snd (operations ?rep)))"
    unfolding detect_bottlenecks_def bottlenecks_loop_filter by simp
  show ?thesis
    unfolding zero unfolding report_total_ms_get full
    by (simp add: bottleneck_entry_def comp_def)
qed

theorem C5_detect_bottlenecks_witness:
  "0 < report_total_ms (rust_get_profile_report example_profile None) \<and>
   map (\<lambda>d. (map_of d ''operation'', map_of d ''severity''))
     (detect_bottlenecks format_fixed (rust_get_profile_report example_profile None) (3/10))
   = [(Some (PyStr ''mul''), Some (PyStr ''CRITICAL''))] \<and>
   map (\<lambda>d. (map_of d ''operation'', map_of d ''severity''))
     (detect_bottlenecks format_fixed (rust_get_profile_report example_profile None) (1/5))
   = [(Some (PyStr ''mul''), Some (PyStr ''CRITICAL'')), (Some (PyStr ''add''), Some (PyStr ''HIGH''))]"
  using C5_detect_bottlenecks [of example_profile format_fixed "3/10"]
    C5_detect_bottlenecks [of example_profile format_fixed "1/5"]
  by (simp add: example_report single_call_def bottleneck_entry_def)

text \<open>
  What the code flags, whatever the numbers: the operations present in both snapshots
  whose baseline average is above 0 and whose ratio exceeds the threshold.
\<close>

lemma detect_regressions_guarded:
  "detect_regressions current baseline threshold =
     map (\<lambda>(n, c). regression_entry n (avg_time_ms (the (map_of (operations baseline) n)))
                        (avg_time_ms c))
         (filter (\<lambda>(n, c). case map_of (operations baseline) n of
                             None \<Rightarrow> False
                           | Some b \<Rightarrow> avg_time_ms b > 0 \<and>
                                        avg_time_ms c / avg_time_ms b > threshold)
                 (operations current))"
  by (simp add: detect_regressions_def regressions_loop_filter)

text \<open>
  Claim C6: \<^verbatim>\<open>detect_regressions(baseline, threshold=1.2)\<close> flags, in the order of the
  current snapshot, exactly the operations present in both snapshots whose ratio of current
  to baseline average is strictly greater than the threshold, and reports that ratio as
  \<^verbatim>\<open>slowdown_factor\<close>; a baseline average of 1.0 ms and a current one of 3.0 ms with
  threshold 1.2 give the factor 3.0. The averages of a baseline are durations and the
  threshold is a slowdown factor: neither is negative.
\<close>

theorem C6_detect_regressions:
  assumes durations: "\<forall>(n, b) \<in> set (operations baseline). 0 \<le> avg_time_ms b"
    and factor: "0 \<le> threshold"
  shows "detect_regressions current baseline threshold =
     map (\<lambda>(n, c). regression_entry n (avg_time_ms (the (map_of (operations baseline) n)))
                        (avg_time_ms c))
         (filter (\<lambda>(n, c). case map_of (operations baseline) n of
                             None \<Rightarrow> False
                           | Some b \<Rightarrow> avg_time_ms c / avg_time_ms b > threshold)
                 (operations current))
   \<and> map (\<lambda>d. (map_of d ''operation'', map_of d ''slowdown_factor''))
         (detect_regressions current baseline threshold) =
     map (\<lambda>(n, c). (Some (PyStr n),
             Some (PyFloat (avg_time_ms c / avg_time_ms (the (map_of (operations baseline) n))))))
         (filter (\<lambda>(n, c). case map_of (operations baseline) n of
                             None \<Rightarrow> False
                           | Some b \<Rightarrow> avg_time_ms c / avg_time_ms b > threshold)
                 (operations current))"
proof -
  have guard: "(avg_time_ms b > 0 \<and> avg_time_ms c / avg_time_ms b > threshold)
      = (avg_time_ms c / avg_time_ms b > threshold)"
    if "map_of (operations baseline) n = Some b" for n b c
  proof -
    from that have "(n, b) \<in> set (operations baseline)" by (rule map_of_SomeD)
    with durations have "0 \<le> avg_time_ms b" by auto
    then have "avg_time_ms b = 0 \<or> 0 < avg_time_ms b" by auto
    then show ?thesis using factor by auto
  qed
  have same: "(\<lambda>(n, c). case map_of (operations baseline) n of None \<Rightarrow> False
                 | Some b \<Rightarrow> avg_time_ms b > 0 \<and> avg_time_ms c / avg_time_ms b > threshold)
            = (\<lambda>(n, c). case map_of (operations baseline) n of None \<Rightarrow> False
                 | Some b \<Rightarrow> avg_time_ms c / avg_time_ms b > threshold)"
    by (auto simp: fun_eq_iff guard split: option.splits)
  have full: "detect_regressions current baseline threshold =
     map (\<lambda>(n, c). regression_entry n (avg_time_ms (the (map_of (operations baseline) n)))
                        (avg_time_ms c))
         (filter (\<lambda>(n, c). case map_of (operations baseline) n of
                             None \<Rightarrow> False
                           | Some b \<Rightarrow> avg_time_ms c / avg_time_ms b > threshold)
                 (operations current))"
    unfolding detect_regressions_guarded same ..
  show ?thesis
    unfolding full by (simp add: regression_entry_def case_prod_beta)
qed

theorem C6_detect_regressions_witness:
  "0 \<le> avg_time_ms (single_call ''matmul'' 1 ''CPU'' 100) \<and> (0 :: rat) \<le> 6/5 \<and>
   map (\<lambda>d. (map_of d ''operation'', map_of d ''slowdown_factor''))
     (detect_regressions
        (report_of [single_call ''matmul'' 3 ''CPU'' 75, single_call ''add'' 1 ''CPU'' 25])
        (report_of [single_call ''matmul'' 1 ''CPU'' 50, single_call ''add'' 1 ''CPU'' 50]) (6/5))
   = [(Some (PyStr ''matmul''), Some (PyFloat 3))]"
  using C6_detect_regressions
    [of "report_of [single_call ''matmul'' 1 ''CPU'' 50, single_call ''add'' 1 ''CPU'' 50]" "6/5"
      "report_of [single_call ''matmul'' 3 ''CPU'' 75, single_call ''add'' 1 ''CPU'' 25]"]
  by (simp add: report_of_def single_call_def regression_entry_def)

text \<open>
  Claim C7, as stated: every element returned by \<^verbatim>\<open>get_recommendations()\<close> has the
  fields priority, title, description, estimated_speedup and example. For a snapshot with
  \<^verbatim>\<open>matmul\<close> on the CPU at 11 ms the element has no key \<^verbatim>\<open>example\<close>; its fifth key is
  \<^verbatim>\<open>code_example\<close>.
\<close>

theorem C7_example_key_counterexample:
  "map_of (hd (get_recommendations format_fixed (report_of [single_call ''matmul'' 11 ''CPU'' 100])))
     ''example'' = None
   \<and> map fst (hd (get_recommendations format_fixed
                    (report_of [single_call ''matmul'' 11 ''CPU'' 100])))
     = [''priority'', ''title'', ''description'', ''estimated_speedup'', ''code_example'']"
  by (simp add: get_recommendations_def report_of_def single_call_def recommendation_def)

text \<open>
  Claim C7, amended: every element returned by \<^verbatim>\<open>get_recommendations()\<close> is a dictionary
  with exactly the keys priority, title, description, estimated_speedup and code_example;
  when the snapshot (a dictionary, each key once) contains \<^verbatim>\<open>matmul\<close> with primary
  backend CPU and an average above 10 ms, exactly one such element is produced.
\<close>

theorem C7_get_recommendations:
  "(\<forall>d \<in> set (get_recommendations fmt rep).
      map fst d = [''priority'', ''title'', ''description'', ''estimated_speedup'', ''code_example''])
   \<and> (distinct (map fst (operations rep)) \<longrightarrow> (''matmul'', e) \<in> set (operations rep) \<longrightarrow>
        primary_backend e = ''CPU'' \<longrightarrow> avg_time_ms e > 10 \<longrightarrow>
        get_recommendations fmt rep = [recommendation fmt e])"
proof (intro conjI impI)
  show "\<forall>d \<in> set (get_recommendations fmt rep).
      map fst d = [''priority'', ''title'', ''description'', ''estimated_speedup'', ''code_example'']"
    by (auto simp: get_recommendations_def recommendations_loop_filter recommendation_def)
next
  assume d: "distinct (map fst (operations rep))" and m: "(''matmul'', e) \<in> set (operations rep)"
    and b: "primary_backend e = ''CPU''" and a: "avg_time_ms e > 10"
  have "filter (\<lambda>(n, d). n = ''matmul'' \<and> (primary_backend d = ''CPU'' \<and> avg_time_ms d > 10))
          (operations rep) = [(''matmul'', e)]"
    using filter_key_distinct [OF d m, of "\<lambda>d. primary_backend d = ''CPU'' \<and> avg_time_ms d > 10"] a b
    by simp
  then show "get_recommendations fmt rep = [recommendation fmt e]"
    by (simp add: get_recommendations_def recommendations_loop_filter)
qed

theorem C7_get_recommendations_witness:
  "get_recommendations format_fixed (report_of [single_call ''matmul'' 11 ''CPU'' 100])
     = [[(''priority'', PyStr ''HIGH''),
         (''title'', PyStr ''Enable GPU for Matrix Multiplication''),
         (''description'', PyStr ''Matmul is taking 11.0ms on CPU.''),
         (''estimated_speedup'', PyStr ''10x-50x''),
         (''code_example'', PyStr (''x.to('' @ [CHR 0x27] @ ''cuda'' @ [CHR 0x27] @ '')''))]]"
proof -
  have f: "format_fixed (Suc 0) 11 = ''11.0''" by code_simp
  have "get_recommendations format_fixed (report_of [single_call ''matmul'' 11 ''CPU'' 100])
      = [recommendation format_fixed (single_call ''matmul'' 11 ''CPU'' 100)]"
    using C7_get_recommendations [of format_fixed "report_of [single_call ''matmul'' 11 ''CPU'' 100]"
        "single_call ''matmul'' 11 ''CPU'' 100"]
    by (simp add: report_of_def single_call_def)
  then show ?thesis by (simp add: recommendation_def single_call_def f)
qed

section \<open>Recording while disabled, and context scopes\<close>

lemma rust_record_disabled: "\<not> enabled p \<Longrightarrow> rust_record n d b p = p"
  by (simp add: rust_record_def)

lemma enter_exit_fields [simp]:
  "enabled (ProfileContext_enter setc name p) = enabled p"
  "table (ProfileContext_enter setc name p) = table p"
  "enabled (ProfileContext_exit setc p) = enabled p"
  "table (ProfileContext_exit setc p) = table p"
  by (simp_all add: ProfileContext_enter_def ProfileContext_exit_def)

lemma record_fields [simp]:
  "enabled (rust_record n d b p) = enabled p"
  "context_stack (rust_record n d b p) = context_stack p"
  by (simp_all add: rust_record_def)

lemma run_Then:
  "run setc (Then a b) p =
     (if fst (run setc a p) = Returned then run setc b (snd (run setc a p))
      else (Raised, snd (run setc a p)))"
  by (cases "run setc a p"; cases "fst (run setc a p)") simp_all

lemma run_WithContext:
  "run setc (WithContext name body) p =
     (fst (run setc body (ProfileContext_enter setc name p)),
      ProfileContext_exit setc (snd (run setc body (ProfileContext_enter setc name p))))"
  by (cases "run setc body (ProfileContext_enter setc name p)") simp

lemma run_enabled: "enabled (snd (run setc blk p)) = enabled p"
proof (induction blk arbitrary: p)
  case (Then a b)
  then show ?case by (simp add: run_Then del: run.simps)
next
  case (WithContext name body)
  then show ?case by (simp add: run_WithContext del: run.simps)
qed simp_all

lemma run_disabled_table: "\<not> enabled p \<Longrightarrow> table (snd (run setc blk p)) = table p"
proof (induction blk arbitrary: p)
  case (Operation n d b)
  then show ?case by (simp add: rust_record_disabled)
next
  case RaiseStmt
  then show ?case by simp
next
  case (Then a b)
  from Then.prems have "\<not> enabled (snd (run setc a p))" by (simp add: run_enabled)
  from Then.IH(2) [OF this] Then.IH(1) [OF Then.prems] show ?case
    by (simp add: run_Then del: run.simps)
next
  case (WithContext name body)
  have "\<not> enabled (ProfileContext_enter setc name p)"
    using WithContext.prems by simp
  from WithContext.IH [OF this] show ?case
    by (simp add: run_WithContext del: run.simps)
qed

lemma run_operations_disabled: "\<not> enabled p \<Longrightarrow> run_operations ops p = p"
  unfolding run_operations_def
  by (induction ops arbitrary: p) (auto simp: rust_record_disabled)

lemma example_table:
  "table example_profile =
     [(''mul'', \<lparr>rec_count = 1, rec_total_time = 6, rec_min_time = 6, rec_max_time = 6,
                rec_backends = [(''CPU'', 1)], rec_contexts = []\<rparr>),
      (''add'', \<lparr>rec_count = 1, rec_total_time = 2, rec_min_time = 2, rec_max_time = 2,
                rec_backends = [(''CPU'', 1)], rec_contexts = []\<rparr>)]"
  by (simp add: example_profile_def rust_record_def enable_profiling_def rust_enable_profiling_def
        init_profiler_def current_context_def new_record_def tag_with_def)

text \<open>
  Claim C2: while profiling is disabled (initially, or after \<^verbatim>\<open>disable_profiling()\<close>),
  running any sequence of operations leaves every count of the aggregate table exactly as
  it was; \<^verbatim>\<open>record\<close> does nothing when disabled. The operations may come as a plain
  sequence or inside context scopes, whatever the extension does with the labels.
\<close>

theorem C2_disabled_records_nothing:
  "\<not> enabled (init_profiler sid) \<and> \<not> enabled (disable_profiling q)
   \<and> (\<not> enabled p \<longrightarrow>
        rust_record op_name duration backend p = p
        \<and> run_operations ops p = p
        \<and> table (snd (run setc blk p)) = table p
        \<and> map (\<lambda>(name, r). (name, rec_count r)) (table (snd (run setc blk p)))
            = map (\<lambda>(name, r). (name, rec_count r)) (table p)
        \<and> \<not> enabled (snd (run setc blk p)))"
  by (simp add: init_profiler_def disable_profiling_def rust_disable_profiling_def
        rust_record_disabled run_operations_disabled run_disabled_table run_enabled)

theorem C2_disabled_witness:
  "\<not> enabled (disable_profiling example_profile) \<and>
   map (\<lambda>(name, r). (name, rec_count r))
     (table (snd (run push_pop_context
                    (Then (Operation ''add'' 5 ''CPU'')
                          (WithContext ''scope'' (Operation ''mul'' 1 ''CPU'')))
                    (disable_profiling example_profile))))
   = [(''mul'', 1), (''add'', 1)] \<and>
   run_operations [(''add'', 5, ''CPU''), (''mul'', 1, ''CPU'')] (disable_profiling example_profile)
   = disable_profiling example_profile"
proof -
  let ?blk = "Then (Operation ''add'' 5 ''CPU'') (WithContext ''scope'' (Operation ''mul'' 1 ''CPU''))"
  let ?ops = "[(''add'', 5, ''CPU''), (''mul'', 1, ''CPU'')]"
  have off: "\<not> enabled (disable_profiling example_profile)"
    by (simp add: disable_profiling_def rust_disable_profiling_def)
  have counts: "map (\<lambda>(name, r). (name, rec_count r)) (table (disable_profiling example_profile))
      = [(''mul'', 1), (''add'', 1)]"
    by (simp add: disable_profiling_def rust_disable_profiling_def example_table)
  from C2_disabled_records_nothing [of "''example''" example_profile
      "disable_profiling example_profile" "''add''" 5 "''CPU''" ?ops push_pop_context ?blk] off
  have same: "map (\<lambda>(name, r). (name, rec_count r))
        (table (snd (run push_pop_context ?blk (disable_profiling example_profile))))
      = map (\<lambda>(name, r). (name, rec_count r)) (table (disable_profiling example_profile))"
    and ops: "run_operations ?ops (disable_profiling example_profile)
      = disable_profiling example_profile"
    by blast+
  from same counts have "map (\<lambda>(name, r). (name, rec_count r))
        (table (snd (run push_pop_context ?blk (disable_profiling example_profile))))
      = [(''mul'', 1), (''add'', 1)]"
    by (rule trans)
  with off ops show ?thesis by blast
qed

text \<open>
  The exit of a scope runs on every path: whether the body returns or raises, the labels
  after the block are what \<^verbatim>\<open>_set_profile_context(None)\<close> makes of the labels the body
  left.
\<close>

lemma exit_always_runs:
  "context_stack (snd (run setc (WithContext name body) p))
     = setc None (context_stack (snd (run setc body (ProfileContext_enter setc name p))))"
  by (simp add: run_WithContext ProfileContext_exit_def del: run.simps)

text \<open>With the stack of the specification, every block leaves the labels as it found them.\<close>

lemma run_stack_push_pop:
  "context_stack (snd (run push_pop_context blk p)) = context_stack p"
proof (induction blk arbitrary: p)
  case (Then a b)
  then show ?case by (simp add: run_Then del: run.simps)
next
  case (WithContext name body)
  from WithContext.IH [of "ProfileContext_enter push_pop_context name p"] show ?case
    by (simp add: run_WithContext ProfileContext_enter_def ProfileContext_exit_def
          push_pop_context_def del: run.simps)
qed simp_all

lemma current_context_enter:
  "current_context (ProfileContext_enter push_pop_context name p) = Some name"
  by (simp add: current_context_def ProfileContext_enter_def push_pop_context_def)

lemma current_context_after:
  "current_context (snd (run push_pop_context blk p)) = current_context p"
  by (simp add: current_context_def run_stack_push_pop)

text \<open>An operation recorded while a label is current is found in the table, tagged with it.\<close>

lemma upsert_tagged:
  "\<exists>r. map_of (upsert_record n d b (Some l) tbl) n = Some r \<and> l \<in> set (rec_contexts r)"
  by (induction tbl) (auto simp: new_record_def update_record_def tag_with_def)

text \<open>
  Claim C3: scope entry pushes a label and scope exit pops it on every exit path, whether
  the body returns or raises; after a nested \<^verbatim>\<open>ProfileContext\<close> ends, the label of the
  enclosing scope is the current top again, so an operation recorded afterwards in the
  enclosing scope is recorded under, and tagged with, the label of the enclosing scope.
\<close>

theorem C3_context_scopes:
  "context_stack (ProfileContext_enter push_pop_context name p) = name # context_stack p
   \<and> context_stack (ProfileContext_exit push_pop_context (ProfileContext_enter push_pop_context name p))
       = context_stack p
   \<and> run push_pop_context (WithContext name body) p
       = (fst (run push_pop_context body (ProfileContext_enter push_pop_context name p)),
          ProfileContext_exit push_pop_context
            (snd (run push_pop_context body (ProfileContext_enter push_pop_context name p))))
   \<and> context_stack (snd (run push_pop_context (WithContext name body) p)) = context_stack p
   \<and> current_context (snd (run push_pop_context (WithContext inner body)
                               (ProfileContext_enter push_pop_context outer p)))
       = Some outer
   \<and> (enabled p \<longrightarrow>
        fst (run push_pop_context (WithContext inner body)
               (ProfileContext_enter push_pop_context outer p)) = Returned \<longrightarrow>
        table (snd (run push_pop_context
                 (WithContext outer
                    (Then (WithContext inner body) (Operation op_name duration backend))) p))
          = upsert_record op_name duration backend (Some outer)
              (table (snd (run push_pop_context (WithContext inner body)
                             (ProfileContext_enter push_pop_context outer p))))
        \<and> (\<exists>r. map_of (table (snd (run push_pop_context
                      (WithContext outer
                         (Then (WithContext inner body) (Operation op_name duration backend))) p)))
                    op_name = Some r
                  \<and> outer \<in> set (rec_contexts r)))"
proof (intro conjI impI)
  show "context_stack (ProfileContext_enter push_pop_context name p) = name # context_stack p"
    by (simp add: ProfileContext_enter_def push_pop_context_def)
  show "context_stack (ProfileContext_exit push_pop_context
          (ProfileContext_enter push_pop_context name p)) = context_stack p"
    by (simp add: ProfileContext_enter_def ProfileContext_exit_def push_pop_context_def)
  show "run push_pop_context (WithContext name body) p
       = (fst (run push_pop_context body (ProfileContext_enter push_pop_context name p)),
          ProfileContext_exit push_pop_context
            (snd (run push_pop_context body (ProfileContext_enter push_pop_context name p))))"
    by (rule run_WithContext)
  show "context_stack (snd (run push_pop_context (WithContext name body) p)) = context_stack p"
    by (rule run_stack_push_pop)
  show top: "current_context (snd (run push_pop_context (WithContext inner body)
      (ProfileContext_enter push_pop_context outer p))) = Some outer"
    by (simp only: current_context_after current_context_enter)
  assume en: "enabled p"
    and ret: "fst (run push_pop_context (WithContext inner body)
                (ProfileContext_enter push_pop_context outer p)) = Returned"
  let ?p2 = "snd (run push_pop_context (WithContext inner body)
                (ProfileContext_enter push_pop_context outer p))"
  have en2: "enabled ?p2"
    using en by (simp only: run_enabled) simp
  have "table (snd (run push_pop_context (WithContext outer
          (Then (WithContext inner body) (Operation op_name duration backend))) p))
        = table (rust_record op_name duration backend ?p2)"
    using ret by (simp add: run_WithContext run_Then del: run.simps(3,4))
  also have "\<dots> = upsert_record op_name duration backend (Some outer) (table ?p2)"
    using en2 top by (simp add: rust_record_def)
  finally show recorded: "table (snd (run push_pop_context (WithContext outer
          (Then (WithContext inner body) (Operation op_name duration backend))) p))
        = upsert_record op_name duration backend (Some outer) (table ?p2)" .
  show "\<exists>r. map_of (table (snd (run push_pop_context
                      (WithContext outer
                         (Then (WithContext inner body) (Operation op_name duration backend))) p)))
                    op_name = Some r
                  \<and> outer \<in> set (rec_contexts r)"
    unfolding recorded by (rule upsert_tagged)
qed

theorem C3_context_scopes_witness:
  "run push_pop_context
     (WithContext ''outer''
        (Then (WithContext ''inner'' (Operation ''mul'' 2 ''CPU'')) (Operation ''add'' 1 ''CPU'')))
     (enable_profiling (init_profiler ''s''))
   = (Returned,
      \<lparr>enabled = True,
       table =
         [(''mul'', \<lparr>rec_count = 1, rec_total_time = 2, rec_min_time = 2, rec_max_time = 2,
                    rec_backends = [(''CPU'', 1)], rec_contexts = [''inner'']\<rparr>),
          (''add'', \<lparr>rec_count = 1, rec_total_time = 1, rec_min_time = 1, rec_max_time = 1,
                    rec_backends = [(''CPU'', 1)], rec_contexts = [''outer'']\<rparr>)],
       context_stack = [], session = ''s''\<rparr>)
   \<and> run push_pop_context
       (WithContext ''outer'' (Then (WithContext ''inner'' RaiseStmt) (Operation ''add'' 1 ''CPU'')))
       (enable_profiling (init_profiler ''s''))
     = (Raised, enable_profiling (init_profiler ''s''))
   \<and> context_stack (snd (run push_pop_context (WithContext ''inner'' RaiseStmt)
        (ProfileContext_enter push_pop_context ''outer'' (enable_profiling (init_profiler ''s'')))))
     = [''outer'']"
proof -
  let ?p = "enable_profiling (init_profiler ''s'')"
  have en: "enabled ?p"
    by (simp add: enable_profiling_def rust_enable_profiling_def)
  have full: "run push_pop_context
     (WithContext ''outer''
        (Then (WithContext ''inner'' (Operation ''mul'' 2 ''CPU'')) (Operation ''add'' 1 ''CPU''))) ?p
   = (Returned,
      \<lparr>enabled = True,
       table =
         [(''mul'', \<lparr>rec_count = 1, rec_total_time = 2, rec_min_time = 2, rec_max_time = 2,
                    rec_backends = [(''CPU'', 1)], rec_contexts = [''inner'']\<rparr>),
          (''add'', \<lparr>rec_count = 1, rec_total_time = 1, rec_min_time = 1, rec_max_time = 1,
                    rec_backends = [(''CPU'', 1)], rec_contexts = [''outer'']\<rparr>)],
       context_stack = [], session = ''s''\<rparr>)"
    by (simp add: ProfileContext_enter_def ProfileContext_exit_def push_pop_context_def
        rust_record_def enable_profiling_def rust_enable_profiling_def init_profiler_def
        current_context_def new_record_def tag_with_def)
  have raised: "run push_pop_context
       (WithContext ''outer'' (Then (WithContext ''inner'' RaiseStmt) (Operation ''add'' 1 ''CPU''))) ?p
     = (Raised, ?p)"
    by (simp add: ProfileContext_enter_def ProfileContext_exit_def push_pop_context_def
        enable_profiling_def rust_enable_profiling_def init_profiler_def)
  from C3_context_scopes [where name = "''inner''" and body = RaiseStmt
      and p = "ProfileContext_enter push_pop_context ''outer'' ?p"]
  have "context_stack (snd (run push_pop_context (WithContext ''inner'' RaiseStmt)
        (ProfileContext_enter push_pop_context ''outer'' ?p)))
      = context_stack (ProfileContext_enter push_pop_context ''outer'' ?p)"
    by blast
  also have "\<dots> = [''outer'']"
    by (simp add: ProfileContext_enter_def push_pop_context_def enable_profiling_def
        rust_enable_profiling_def init_profiler_def)
  finally show ?thesis using full raised by blast
qed

section \<open>Exporting and rendering reports\<close>

lemma csv_row_cells:
  "csv_row op =
     [PyStr (operation op), PyInt (int (count op)), PyFloat (total_time_ms op),
      PyFloat (avg_time_ms op), PyFloat (min_time_ms op), PyFloat (max_time_ms op),
      PyStr (primary_backend op), PyFloat (percent_total op)]"
  by (simp add: csv_row_def csv_keys_def op_dict_def)

text \<open>
  Claim C8: \<^verbatim>\<open>export_profile(path, format='csv')\<close> writes one row per operation with
  exactly the columns operation, count, total_time_ms, avg_time_ms, min_time_ms,
  max_time_ms, primary_backend, percent_total in that order, under a header row of these
  names, and writes nothing (the file is not even opened) when the operations map of the
  snapshot is empty.
\<close>

theorem C8_export_csv:
  "(operations (rust_get_profile_report p context) = [] \<longrightarrow>
      export_profile json_dump can_open p fs filename ''csv'' context = Inr fs)
   \<and> (operations (rust_get_profile_report p context) \<noteq> [] \<longrightarrow> can_open filename \<longrightarrow>
      export_profile json_dump can_open p fs filename ''csv'' context =
        Inr (fs(filename \<mapsto> CsvTable
          ([PyStr ''operation'', PyStr ''count'', PyStr ''total_time_ms'', PyStr ''avg_time_ms'',
            PyStr ''min_time_ms'', PyStr ''max_time_ms'', PyStr ''primary_backend'',
            PyStr ''percent_total'']
           # map (\<lambda>op.
                   [PyStr (operation op), PyInt (int (count op)), PyFloat (total_time_ms op),
                    PyFloat (avg_time_ms op), PyFloat (min_time_ms op), PyFloat (max_time_ms op),
                    PyStr (primary_backend op), PyFloat (percent_total op)])
                 (map snd (operations (rust_get_profile_report p context)))))))"
  by (simp add: export_profile_def Let_def csv_row_cells csv_keys_def comp_def)

theorem C8_export_csv_witness:
  "export_profile (\<lambda>indent rep. []) (\<lambda>path. True) example_profile Map.empty ''profile.csv'' ''csv'' None
     = Inr [''profile.csv'' \<mapsto> CsvTable
         [[PyStr ''operation'', PyStr ''count'', PyStr ''total_time_ms'', PyStr ''avg_time_ms'',
           PyStr ''min_time_ms'', PyStr ''max_time_ms'', PyStr ''primary_backend'',
           PyStr ''percent_total''],
          [PyStr ''mul'', PyInt 1, PyFloat 6, PyFloat 6, PyFloat 6, PyFloat 6, PyStr ''CPU'', PyFloat 75],
          [PyStr ''add'', PyInt 1, PyFloat 2, PyFloat 2, PyFloat 2, PyFloat 2, PyStr ''CPU'', PyFloat 25]]]
   \<and> export_profile (\<lambda>indent rep. []) (\<lambda>path. False) (init_profiler ''example'') Map.empty
        ''profile.csv'' ''csv'' None = Inr Map.empty"
proof -
  have empty: "operations (rust_get_profile_report (init_profiler ''example'') None) = []"
    by (simp add: rust_get_profile_report_def init_profiler_def)
  show ?thesis
    using C8_export_csv [of example_profile None "\<lambda>indent rep. []" "\<lambda>path. True" Map.empty "''profile.csv''"]
      C8_export_csv [of "init_profiler ''example''" None "\<lambda>indent rep. []" "\<lambda>path. False" Map.empty
        "''profile.csv''"] empty
    by (simp add: example_report single_call_def)
qed

text \<open>
  The JSON export hands the snapshot itself, unchanged, to \<^verbatim>\<open>json.dump\<close> with indent 2
  and touches no other file; the flamegraph export hands over the same snapshot.
\<close>

lemma export_json_writes_snapshot:
  "can_open filename \<Longrightarrow>
     export_profile json_dump can_open p fs filename ''json'' context =
       Inr (fs(filename \<mapsto> JsonText (json_dump (Some 2) (rust_get_profile_report p context))))"
  by (simp add: export_profile_def Let_def)

lemma export_flamegraph_writes_snapshot:
  "can_open filename \<Longrightarrow>
     export_profile json_dump can_open p fs filename ''flamegraph'' context =
       Inr (fs(filename \<mapsto> JsonText (json_dump None (rust_get_profile_report p context))))"
  by (simp add: export_profile_def Let_def convert_to_speedscope_def)

text \<open>Decimal digits: \<^verbatim>\<open>str(count)\<close>.\<close>

lemma digit_char_table: "map digit_char [0..<10] = ''0123456789''"
  by code_simp

lemma digit_char_nth: "d < 10 \<Longrightarrow> digit_char d = ''0123456789'' ! d"
proof -
  assume "d < 10"
  then have "map digit_char [0..<10] ! d = digit_char d" by simp
  then show ?thesis by (simp only: digit_char_table)
qed

lemma digit_char_in: "d < 10 \<Longrightarrow> digit_char d \<in> set ''0123456789''"
proof -
  assume d: "d < 10"
  then have "''0123456789'' ! d \<in> set ''0123456789''"
    by (intro nth_mem) simp
  with d show ?thesis by (simp only: digit_char_nth)
qed

lemma digit_char_code: "d < 10 \<Longrightarrow> (of_char (digit_char d) :: nat) = 48 + d"
  by (simp add: digit_char_def)

lemma digit_char_zero: "d < 10 \<Longrightarrow> (digit_char d = CHR ''0'') = (d = 0)"
proof
  assume "d < 10" and "digit_char d = CHR ''0''"
  then have "(of_char (digit_char d) :: nat) = of_char CHR ''0''" by simp
  with \<open>d < 10\<close> show "d = 0" by (simp add: digit_char_code)
next
  assume "d = 0"
  then show "digit_char d = CHR ''0''" by (simp add: digit_char_nth)
qed

lemma str_nat_ne: "str_nat n \<noteq> []"
  by (subst str_nat.simps) simp

lemma str_nat_digits: "set (str_nat n) \<subseteq> set ''0123456789''"
proof (induction n rule: str_nat.induct)
  case (1 n)
  show ?case
  proof (cases "n < 10")
    case True
    then show ?thesis
      using digit_char_in [of n] by (subst str_nat.simps) simp
  next
    case False
    with 1 have "set (str_nat (n div 10)) \<subseteq> set ''0123456789''" by simp
    moreover have "digit_char (n mod 10) \<in> set ''0123456789''"
      by (rule digit_char_in) simp
    ultimately show ?thesis
      using False by (subst str_nat.simps) simp
  qed
qed

lemma str_nat_value: "foldl (\<lambda>a c. 10 * a + (of_char c - 48)) 0 (str_nat n) = n"
proof (induction n rule: str_nat.induct)
  case (1 n)
  show ?case
  proof (cases "n < 10")
    case True
    then show ?thesis
      by (subst str_nat.simps) (simp add: digit_char_code)
  next
    case False
    with 1 have "foldl (\<lambda>a c. 10 * a + (of_char c - 48)) 0 (str_nat (n div 10)) = n div 10"
      by simp
    then show ?thesis
      using False by (subst str_nat.simps) (simp add: digit_char_code)
  qed
qed

lemma str_nat_hd: "hd (str_nat n) = CHR ''0'' \<Longrightarrow> n = 0"
proof (induction n rule: str_nat.induct)
  case (1 n)
  show ?case
  proof (cases "n < 10")
    case True
    with 1(2) show ?thesis
      by (subst (asm) str_nat.simps) (simp add: digit_char_zero)
  next
    case False
    with 1(2) have "hd (str_nat (n div 10)) = CHR ''0''"
      by (subst (asm) str_nat.simps) (simp add: str_nat_ne)
    with 1(1) False have "n div 10 = 0" by simp
    with False show ?thesis by simp
  qed
qed

lemma str_nat_zero: "str_nat 0 = ''0''"
  by code_simp

lemma str_nat_leading: "str_nat n = ''0'' \<or> hd (str_nat n) \<noteq> CHR ''0''"
  using str_nat_hd [of n] str_nat_zero by auto

lemma join_lines_cons: "ls \<noteq> [] \<Longrightarrow> join_lines (l # ls) = l @ [CHR 0x0A] @ join_lines ls"
  by (cases ls) simp_all

lemma join_lines_snoc:
  "join_lines (ls @ [b]) = concat (map (\<lambda>l. l @ [CHR 0x0A]) ls) @ b"
  by (induction ls) (simp_all add: join_lines_cons)

lemma table_header_text:
  "table_header = ''Operation            Count    Total(ms)  Avg(ms)    %      Backend''"
  by code_simp




text \<open>The second profile and the cells of its table.\<close>

lemma unsorted_report:
  "rust_get_profile_report unsorted_profile None =
     \<lparr>session_id = ''example'',
      operations =
        [(''add'', \<lparr>operation = ''add'', count = 12, total_time_ms = 3, avg_time_ms = 1/4,
                   min_time_ms = 1/4, max_time_ms = 1/4, primary_backend = ''CPU'',
                   percent_total = 20\<rparr>),
         (''matmul'', \<lparr>operation = ''matmul'', count = 1, total_time_ms = 12, avg_time_ms = 12,
                   min_time_ms = 12, max_time_ms = 12, primary_backend = ''GPU'',
                   percent_total = 80\<rparr>)],
      report_total_ms = 15\<rparr>"
  by code_simp

lemma unsorted_report_training:
  "rust_get_profile_report unsorted_profile (Some ''training'') =
     \<lparr>session_id = ''example'', operations = [], report_total_ms = 15\<rparr>"
  by code_simp

lemma unsorted_cells:
  "format_fixed 2 15 = ''15.00''" "format_fixed 2 12 = ''12.00''" "format_fixed 3 12 = ''12.000''"
  "format_fixed (Suc 0) 80 = ''80.0''" "format_fixed 2 3 = ''3.00''"
  "format_fixed 3 (1/4) = ''0.250''" "format_fixed (Suc 0) 20 = ''20.0''"
  "str_nat 12 = ''12''" "str_nat (Suc 0) = ''1''"
  by code_simp+

lemma replicate_numeral: "replicate (numeral k) x = x # replicate (pred_numeral k) x"
  by (simp add: numeral_eq_Suc)

text \<open>
  Claim C10: for every format other than \<^verbatim>\<open>dict\<close> and \<^verbatim>\<open>json\<close>, \<^verbatim>\<open>compact\<close> and any
  unknown string among them, \<^verbatim>\<open>profile_report\<close> raises nothing and returns the table as
  text: the banner of 80 equals signs, the title with the grand total, the context line
  when a context is given, the banner, the column header, a rule of 80 dashes, one line per
  operation of the snapshot in descending order of total time (each cell padded on the
  right to its width, the count in decimal digits), and the banner.
\<close>

theorem C10_profile_report_text:
  assumes "format \<noteq> ''dict''" and "format \<noteq> ''json''"
  shows "profile_report fmt to_json p context format =
     AsText
       (replicate 80 CHR ''='' @ [CHR 0x0A] @
        ''COREPY PROFILE REPORT (Total: ''
          @ fmt 2 (report_total_ms (rust_get_profile_report p context)) @ ''ms)'' @ [CHR 0x0A] @
        (case context of
           None \<Rightarrow> []
         | Some c \<Rightarrow> if c = [] then [] else ''Context: '' @ c @ [CHR 0x0A]) @
        replicate 80 CHR ''='' @ [CHR 0x0A] @
        ''Operation            Count    Total(ms)  Avg(ms)    %      Backend'' @ [CHR 0x0A] @
        replicate 80 CHR ''-'' @ [CHR 0x0A] @
        concat (map (\<lambda>op.
            operation op @ replicate (20 - length (operation op)) CHR '' '' @ '' '' @
            str_nat (count op) @ replicate (8 - length (str_nat (count op))) CHR '' '' @ '' '' @
            fmt 2 (total_time_ms op)
              @ replicate (10 - length (fmt 2 (total_time_ms op))) CHR '' '' @ '' '' @
            fmt 3 (avg_time_ms op)
              @ replicate (10 - length (fmt 3 (avg_time_ms op))) CHR '' '' @ '' '' @
            fmt 1 (percent_total op)
              @ replicate (6 - length (fmt 1 (percent_total op))) CHR '' '' @ '' '' @
            primary_backend op @ [CHR 0x0A])
          (sort_key (\<lambda>op. - total_time_ms op)
             (map snd (operations (rust_get_profile_report p context))))) @
        replicate 80 CHR ''='')
   \<and> sorted_wrt (\<lambda>a b. total_time_ms a \<ge> total_time_ms b)
        (sort_key (\<lambda>op. - total_time_ms op)
           (map snd (operations (rust_get_profile_report p context))))
   \<and> mset (sort_key (\<lambda>op. - total_time_ms op)
              (map snd (operations (rust_get_profile_report p context))))
       = mset (map snd (operations (rust_get_profile_report p context)))
   \<and> (\<forall>n. str_nat n \<noteq> [] \<and> set (str_nat n) \<subseteq> set ''0123456789''
          \<and> (str_nat n = ''0'' \<or> hd (str_nat n) \<noteq> CHR ''0'')
          \<and> foldl (\<lambda>a c. 10 * a + (of_char c - 48)) 0 (str_nat n) = n)"
proof (intro conjI allI)
  let ?data = "rust_get_profile_report p context"
  let ?rows = "sort_key (\<lambda>op. - total_time_ms op) (map snd (operations ?data))"
  have as_text: "profile_report fmt to_json p context format = AsText (report_text fmt context ?data)"
    using assms by (simp add: profile_report_def Let_def)
  have ctx: "join_lines (banner # title # context_line context @ more)
      = banner @ [CHR 0x0A] @ title @ [CHR 0x0A] @
        (case context of None \<Rightarrow> []
         | Some c \<Rightarrow> if c = [] then [] else ''Context: '' @ c @ [CHR 0x0A])
        @ join_lines more" if "more \<noteq> []" for title more
    using that by (simp add: context_line_def join_lines_cons split: option.split)
  have body: "join_lines ([banner, table_header, replicate 80 CHR ''-''] @ ls @ [banner])
      = banner @ [CHR 0x0A] @ table_header @ [CHR 0x0A] @ replicate 80 CHR ''-'' @ [CHR 0x0A]
        @ concat (map (\<lambda>l. l @ [CHR 0x0A]) ls) @ banner" for ls
    by (simp add: join_lines_cons join_lines_snoc)
  have "report_text fmt context ?data
      = join_lines (banner
          # (''COREPY PROFILE REPORT (Total: '' @ fmt 2 (report_total_ms ?data) @ ''ms)'')
          # context_line context
          @ ([banner, table_header, replicate 80 CHR ''-'']
             @ map (report_line fmt) ?rows @ [banner]))"
    by (simp add: report_text_def sort_by_total_desc_def del: report_total_ms_get)
  also have "\<dots> = banner @ [CHR 0x0A]
        @ (''COREPY PROFILE REPORT (Total: '' @ fmt 2 (report_total_ms ?data) @ ''ms)'')
        @ [CHR 0x0A]
        @ (case context of None \<Rightarrow> []
           | Some c \<Rightarrow> if c = [] then [] else ''Context: '' @ c @ [CHR 0x0A])
        @ join_lines ([banner, table_header, replicate 80 CHR ''-'']
             @ map (report_line fmt) ?rows @ [banner])"
    by (rule ctx) simp
  finally have whole: "report_text fmt context ?data = banner @ [CHR 0x0A]
        @ (''COREPY PROFILE REPORT (Total: '' @ fmt 2 (report_total_ms ?data) @ ''ms)'')
        @ [CHR 0x0A]
        @ (case context of None \<Rightarrow> []
           | Some c \<Rightarrow> if c = [] then [] else ''Context: '' @ c @ [CHR 0x0A])
        @ banner @ [CHR 0x0A] @ table_header @ [CHR 0x0A] @ replicate 80 CHR ''-'' @ [CHR 0x0A]
        @ concat (map (\<lambda>l. l @ [CHR 0x0A]) (map (report_line fmt) ?rows)) @ banner"
    unfolding body .
  show "profile_report fmt to_json p context format =
     AsText
       (replicate 80 CHR ''='' @ [CHR 0x0A] @
        ''COREPY PROFILE REPORT (Total: ''
          @ fmt 2 (report_total_ms ?data) @ ''ms)'' @ [CHR 0x0A] @
        (case context of
           None \<Rightarrow> []
         | Some c \<Rightarrow> if c = [] then [] else ''Context: '' @ c @ [CHR 0x0A]) @
        replicate 80 CHR ''='' @ [CHR 0x0A] @
        ''Operation            Count    Total(ms)  Avg(ms)    %      Backend'' @ [CHR 0x0A] @
        replicate 80 CHR ''-'' @ [CHR 0x0A] @
        concat (map (\<lambda>op.
            operation op @ replicate (20 - length (operation op)) CHR '' '' @ '' '' @
            str_nat (count op) @ replicate (8 - length (str_nat (count op))) CHR '' '' @ '' '' @
            fmt 2 (total_time_ms op)
              @ replicate (10 - length (fmt 2 (total_time_ms op))) CHR '' '' @ '' '' @
            fmt 3 (avg_time_ms op)
              @ replicate (10 - length (fmt 3 (avg_time_ms op))) CHR '' '' @ '' '' @
            fmt 1 (percent_total op)
              @ replicate (6 - length (fmt 1 (percent_total op))) CHR '' '' @ '' '' @
            primary_backend op @ [CHR 0x0A])
          ?rows) @
        replicate 80 CHR ''='')"
    unfolding as_text whole
    by (simp add: banner_def table_header_text report_line_def ljust_def comp_def
          del: report_total_ms_get)
  have "sorted (map (\<lambda>op. - total_time_ms op) ?rows)"
    by (rule sorted_sort_key)
  then show "sorted_wrt (\<lambda>a b. total_time_ms a \<ge> total_time_ms b) ?rows"
    by (simp add: sorted_map)
  show "mset ?rows = mset (map snd (operations ?data))"
    by simp
next
  fix n
  show "str_nat n \<noteq> []" by (rule str_nat_ne)
  show "set (str_nat n) \<subseteq> set ''0123456789''" by (rule str_nat_digits)
  show "str_nat n = ''0'' \<or> hd (str_nat n) \<noteq> CHR ''0''" by (rule str_nat_leading)
  show "foldl (\<lambda>a c. 10 * a + (of_char c - 48)) 0 (str_nat n) = n" by (rule str_nat_value)
qed



theorem C10_profile_report_text_witness:
  "profile_report format_fixed (\<lambda>rep. []) unsorted_profile None ''compact'' =
     AsText
       (replicate 80 CHR ''='' @ [CHR 0x0A] @
        ''COREPY PROFILE REPORT (Total: 15.00ms)'' @ [CHR 0x0A] @
        replicate 80 CHR ''='' @ [CHR 0x0A] @
        ''Operation            Count    Total(ms)  Avg(ms)    %      Backend'' @ [CHR 0x0A] @
        replicate 80 CHR ''-'' @ [CHR 0x0A] @
        ''matmul               1        12.00      12.000     80.0   GPU'' @ [CHR 0x0A] @
        ''add                  12       3.00       0.250      20.0   CPU'' @ [CHR 0x0A] @
        replicate 80 CHR ''='')
   \<and> profile_report format_fixed (\<lambda>rep. []) unsorted_profile (Some ''training'')
         ''no such format'' =
     AsText
       (replicate 80 CHR ''='' @ [CHR 0x0A] @
        ''COREPY PROFILE REPORT (Total: 15.00ms)'' @ [CHR 0x0A] @
        ''Context: training'' @ [CHR 0x0A] @
        replicate 80 CHR ''='' @ [CHR 0x0A] @
        ''Operation            Count    Total(ms)  Avg(ms)    %      Backend'' @ [CHR 0x0A] @
        replicate 80 CHR ''-'' @ [CHR 0x0A] @
        replicate 80 CHR ''='')"
proof -
  have c: "''compact'' \<noteq> ''dict''" "''compact'' \<noteq> ''json''"
    and n: "''no such format'' \<noteq> ''dict''" "''no such format'' \<noteq> ''json''"
    by simp_all
  note compact = C10_profile_report_text [OF c, of format_fixed "\<lambda>rep. []" unsorted_profile None,
      THEN conjunct1]
  note other = C10_profile_report_text [OF n, of format_fixed "\<lambda>rep. []" unsorted_profile
      "Some ''training''", THEN conjunct1]
  show ?thesis
    unfolding compact other unsorted_report unsorted_report_training
    by (simp add: unsorted_cells replicate_numeral)
qed

text \<open>The table of the example profile.\<close>

lemma example_text:
  "report_text format_fixed None (rust_get_profile_report example_profile None) =
     replicate 80 CHR ''='' @ [CHR 0x0A] @
     ''COREPY PROFILE REPORT (Total: 8.00ms)'' @ [CHR 0x0A] @
     replicate 80 CHR ''='' @ [CHR 0x0A] @
     ''Operation            Count    Total(ms)  Avg(ms)    %      Backend'' @ [CHR 0x0A] @
     replicate 80 CHR ''-'' @ [CHR 0x0A] @
     ''mul                  1        6.00       6.000      75.0   CPU'' @ [CHR 0x0A] @
     ''add                  1        2.00       2.000      25.0   CPU'' @ [CHR 0x0A] @
     replicate 80 CHR ''=''"
  unfolding example_report by code_simp

end
